theory Spec2Isabelle
  imports Complex_Main
begin

section \<open>Drug interaction checker: synthetic training data and training driver\<close>

text \<open>
  A shallow embedding of \<^verbatim>\<open>generate_training_data.py\<close> and of the driver
  \<^verbatim>\<open>train_ml_model.py\<close>.

  Conventions of the embedding:
  \<^item> Python and numpy integers are \<^typ>\<open>int\<close>; none of the values of the program comes
    near the 64-bit range.
  \<^item> Python floats are rationals and their arithmetic is exact: \<^verbatim>\<open>1.4\<close> is \<open>14/10\<close>.
    The rounding of IEEE doubles is not modelled.
  \<^item> The two pseudo-random generators (\<^verbatim>\<open>numpy.random\<close> and \<^verbatim>\<open>random\<close>) are
    library code outside the repository. They are a parameter: a record of the sampling
    functions the program calls, each taking the generator state and returning the
    drawn value with the next state.
  \<^item> \<^verbatim>\<open>datetime.now()\<close> is a parameter too: the reading of the wall clock in the
    \<open>i\<close>-th iteration of the generating loop, in microseconds.
  \<^item> \<^verbatim>\<open>print\<close> is dropped from the generator and kept as a log in the driver.
\<close>

subsection \<open>The random sources\<close>

record ('n, 'p) rng =
  np_seed :: "int \<Rightarrow> 'n"
  np_choice :: "rat list \<Rightarrow> 'n \<Rightarrow> nat \<times> 'n"
  np_poisson :: "rat \<Rightarrow> 'n \<Rightarrow> int \<times> 'n"
  np_uniform :: "rat \<Rightarrow> rat \<Rightarrow> 'n \<Rightarrow> rat \<times> 'n"
  np_random :: "'n \<Rightarrow> rat \<times> 'n"
  np_normal :: "rat \<Rightarrow> rat \<Rightarrow> 'n \<Rightarrow> rat \<times> 'n"
  py_seed :: "int \<Rightarrow> 'p"
  py_sample :: "string list \<Rightarrow> int \<Rightarrow> 'p \<Rightarrow> string list \<times> 'p"
  py_randint :: "int \<Rightarrow> int \<Rightarrow> 'p \<Rightarrow> int \<times> 'p"

text \<open>
  \<^verbatim>\<open>np.random.choice(a, p=p)\<close> draws an index of \<open>a\<close> with the weights \<open>p\<close> and returns
  the element there; \<open>np_choice\<close> is the draw of the index.
\<close>

definition choice :: "('n, 'p) rng \<Rightarrow> 'a list \<Rightarrow> rat list \<Rightarrow> 'n \<Rightarrow> 'a \<times> 'n" where
  "choice R a p s = (case np_choice R p s of (i, s') \<Rightarrow> (a ! i, s'))"

text \<open>
  What the documentation of the two libraries promises of the functions, and all that
  the properties below use: \<open>choice\<close> returns an element of its list, a Poisson draw is
  not negative, \<open>uniform(lo, hi)\<close> lies in the half-open interval \<open>[lo, hi)\<close>, and
  \<open>sample(population, k)\<close> returns \<open>k\<close> elements.
\<close>

definition rng_ok :: "('n, 'p) rng \<Rightarrow> bool" where
  "rng_ok R \<longleftrightarrow>
     (\<forall>p s. p \<noteq> [] \<longrightarrow> fst (np_choice R p s) < length p) \<and>
     (\<forall>lam s. 0 \<le> fst (np_poisson R lam s)) \<and>
     (\<forall>lo hi s. lo < hi \<longrightarrow> lo \<le> fst (np_uniform R lo hi s) \<and> fst (np_uniform R lo hi s) < hi) \<and>
     (\<forall>pop k s. 0 \<le> k \<and> k \<le> int (length pop) \<longrightarrow> int (length (fst (py_sample R pop k s))) = k)"

subsection \<open>Case records\<close>

record drug_entry =
  drug_id :: string
  drug_name :: string

record severity =
  CONTRAINDICATED :: int
  SERIOUS :: int
  SIGNIFICANT :: int
  MINOR :: int

record case_record =
  drugs_checked :: "drug_entry list"
  severity_summary :: severity
  allergy_alerts :: "string list"
  patient_age :: int
  has_renal_impairment :: bool
  has_hepatic_impairment :: bool
  num_chronic_conditions :: int
  adverse_event_occurred :: int
  risk_score :: rat
  adverse_event_probability :: rat
  age_group :: string
  generated_at :: int

subsection \<open>Formatting of indices\<close>

definition digit_char :: "nat \<Rightarrow> char" where
  "digit_char d = char_of (48 + d)"

fun str_nat :: "nat \<Rightarrow> string" where
  "str_nat n = (if n < 10 then [digit_char n] else str_nat (n div 10) @ [digit_char (n mod 10)])"

declare str_nat.simps [simp del]

text \<open>\<^verbatim>\<open>int(x)\<close> of a float truncates towards zero.\<close>

definition py_int :: "rat \<Rightarrow> int" where
  "py_int x = (if 0 \<le> x then \<lfloor>x\<rfloor> else \<lceil>x\<rceil>)"

subsection \<open>The generator, one draw at a time\<close>

definition common_drugs :: "string list" where
  "common_drugs =
     [''Warfarin'', ''Aspirin'', ''Metformin'', ''Lisinopril'', ''Amlodipine'',
      ''Atorvastatin'', ''Omeprazole'', ''Metoprolol'', ''Levothyroxine'', ''Losartan'',
      ''Gabapentin'', ''Hydrochlorothiazide'', ''Albuterol'', ''Sertraline'', ''Furosemide'']"

definition draw_num_drugs :: "('n, 'p) rng \<Rightarrow> 'n \<Rightarrow> int \<times> 'n" where
  "draw_num_drugs R s =
     choice R [1, 2, 3, 4, 5, 6, 7, 8, 9, 10]
       [5/100, 15/100, 20/100, 20/100, 15/100, 10/100, 7/100, 5/100, 2/100, 1/100] s"

definition draw_selected_drugs :: "('n, 'p) rng \<Rightarrow> int \<Rightarrow> 'p \<Rightarrow> string list \<times> 'p" where
  "draw_selected_drugs R num_drugs t =
     py_sample R common_drugs (min num_drugs (int (length common_drugs))) t"

definition draw_contraindicated :: "('n, 'p) rng \<Rightarrow> int \<Rightarrow> 'n \<Rightarrow> int \<times> 'n" where
  "draw_contraindicated R num_drugs s =
     (if num_drugs \<ge> 5 then choice R [0, 1, 2] [80/100, 15/100, 5/100] s
      else if num_drugs \<ge> 3 then choice R [0, 1] [95/100, 5/100] s
      else (0, s))"

definition draw_serious :: "('n, 'p) rng \<Rightarrow> int \<Rightarrow> 'n \<Rightarrow> int \<times> 'n" where
  "draw_serious R num_drugs s =
     (if num_drugs \<ge> 4 then choice R [0, 1, 2, 3] [50/100, 30/100, 15/100, 5/100] s
      else if num_drugs \<ge> 2 then choice R [0, 1, 2] [70/100, 25/100, 5/100] s
      else (0, s))"

definition draw_significant :: "('n, 'p) rng \<Rightarrow> int \<Rightarrow> 'n \<Rightarrow> int \<times> 'n" where
  "draw_significant R num_drugs s =
     (if num_drugs \<ge> 2 then
        (case np_poisson R (of_int num_drugs * (3/10)) s of
           (num_significant, s') \<Rightarrow> (min num_significant num_drugs, s'))
      else (0, s))"

definition draw_minor :: "('n, 'p) rng \<Rightarrow> int \<Rightarrow> 'n \<Rightarrow> int \<times> 'n" where
  "draw_minor R num_drugs s =
     (case np_poisson R (of_int num_drugs * (4/10)) s of
        (num_minor, s') \<Rightarrow> (min num_minor (num_drugs * 2), s'))"

definition draw_age :: "('n, 'p) rng \<Rightarrow> 'n \<Rightarrow> (string \<times> int) \<times> 'n" where
  "draw_age R s =
     (case choice R [''young'', ''middle'', ''elderly''] [15/100, 35/100, 50/100] s of
        (grp, s1) \<Rightarrow>
          if grp = ''young'' then
            (case np_uniform R 18 40 s1 of (u, s2) \<Rightarrow> ((grp, py_int u), s2))
          else if grp = ''middle'' then
            (case np_uniform R 40 65 s1 of (u, s2) \<Rightarrow> ((grp, py_int u), s2))
          else
            (case np_uniform R 65 95 s1 of (u, s2) \<Rightarrow> ((grp, py_int u), s2)))"

definition draw_comorbidities :: "('n, 'p) rng \<Rightarrow> bool \<Rightarrow> 'n \<Rightarrow> (bool \<times> bool \<times> int) \<times> 'n" where
  "draw_comorbidities R is_geriatric s =
     (if is_geriatric then
        (case np_random R s of (r1, s1) \<Rightarrow>
         case np_random R s1 of (r2, s2) \<Rightarrow>
         case choice R [0, 1, 2, 3, 4, 5, 6]
                [5/100, 15/100, 25/100, 25/100, 15/100, 10/100, 5/100] s2 of (c, s3) \<Rightarrow>
           ((r1 < 25/100, r2 < 15/100, c), s3))
      else
        (case np_random R s of (r1, s1) \<Rightarrow>
         case np_random R s1 of (r2, s2) \<Rightarrow>
         case choice R [0, 1, 2, 3] [40/100, 35/100, 20/100, 5/100] s2 of (c, s3) \<Rightarrow>
           ((r1 < 8/100, r2 < 5/100, c), s3)))"

definition draw_allergies :: "('n, 'p) rng \<Rightarrow> 'n \<Rightarrow> int \<times> 'n" where
  "draw_allergies R s = choice R [0, 1, 2, 3] [70/100, 20/100, 8/100, 2/100] s"

subsection \<open>The rule-based risk score (lines 109 to 137)\<close>

text \<open>The score before the cap: the assignments of the source, in their order.\<close>

definition risk_score_raw ::
  "int \<Rightarrow> int \<Rightarrow> int \<Rightarrow> int \<Rightarrow> int \<Rightarrow> bool \<Rightarrow> bool \<Rightarrow> bool \<Rightarrow> bool \<Rightarrow> int \<Rightarrow> int \<Rightarrow> rat" where
  "risk_score_raw num_contraindicated num_serious num_significant num_minor
       age is_geriatric renal hepatic polypharmacy num_allergies num_chronic =
     (let r0 = 0;
          r1 = r0 + of_int num_contraindicated * 30;
          r2 = r1 + of_int num_serious * 15;
          r3 = r2 + of_int num_significant * 7;
          r4 = r3 + of_int num_minor * 2;
          r5 = (if age \<ge> 80 then r4 * (14/10)
                else if is_geriatric then r4 * (13/10) else r4);
          r6 = (if renal then r5 * (125/100) else r5);
          r7 = (if hepatic then r6 * (125/100) else r6);
          r8 = (if polypharmacy then r7 * (12/10) else r7);
          r9 = r8 + of_int num_allergies * 10;
          r10 = r9 + of_int num_chronic * 3
      in r10)"

text \<open>Line 137: \<^verbatim>\<open>risk_score = min(risk_score, 100)\<close>.\<close>

definition risk_score_rule ::
  "int \<Rightarrow> int \<Rightarrow> int \<Rightarrow> int \<Rightarrow> int \<Rightarrow> bool \<Rightarrow> bool \<Rightarrow> bool \<Rightarrow> bool \<Rightarrow> int \<Rightarrow> int \<Rightarrow> rat" where
  "risk_score_rule num_contraindicated num_serious num_significant num_minor
       age is_geriatric renal hepatic polypharmacy num_allergies num_chronic =
     min (risk_score_raw num_contraindicated num_serious num_significant num_minor
            age is_geriatric renal hepatic polypharmacy num_allergies num_chronic) 100"

subsection \<open>The label probability (lines 142 to 161)\<close>

definition base_probability :: "rat \<Rightarrow> int \<Rightarrow> int \<Rightarrow> bool \<Rightarrow> bool \<Rightarrow> bool \<Rightarrow> rat" where
  "base_probability score num_contraindicated num_serious is_geriatric renal hepatic =
     (let b0 = score / 100;
          b1 = (if num_contraindicated > 0 then min (b0 * (25/10)) (95/100)
                else if num_serious > 0 then min (b0 * (18/10)) (85/100) else b0);
          b2 = (if is_geriatric then min (b1 * (13/10)) (90/100) else b1);
          b3 = (if renal \<or> hepatic then min (b2 * (12/10)) (90/100) else b2)
      in b3)"

definition final_probability :: "rat \<Rightarrow> rat \<Rightarrow> rat" where
  "final_probability base_prob noise = max 0 (min 1 (base_prob + noise))"

text \<open>
  Lines 164 to 169: the label is drawn with the final probability; a safe regimen draws
  once more and is forced to 0 when that draw is below 0.92.
\<close>

definition draw_outcome :: "('n, 'p) rng \<Rightarrow> rat \<Rightarrow> int \<Rightarrow> int \<Rightarrow> rat \<Rightarrow> 'n \<Rightarrow> int \<times> 'n" where
  "draw_outcome R final_prob num_contraindicated num_serious score s =
     (case np_random R s of (r1, s1) \<Rightarrow>
        let adverse = (if r1 < final_prob then 1 else 0) in
        if num_contraindicated = 0 \<and> num_serious = 0 \<and> score < 20 then
          (case np_random R s1 of (r2, s2) \<Rightarrow>
             (if r2 < 92/100 then 0 else adverse, s2))
        else (adverse, s1))"

subsection \<open>One iteration of the loop, and the loop\<close>

definition drug_entries :: "string list \<Rightarrow> drug_entry list" where
  "drug_entries selected_drugs =
     map (\<lambda>(j, drug). \<lparr>drug_id = ''DRUG_'' @ str_nat j, drug_name = drug\<rparr>)
       (enumerate 0 selected_drugs)"

definition allergy_names :: "int \<Rightarrow> string list" where
  "allergy_names num_allergies = map (\<lambda>j. ''ALLERGY_'' @ str_nat j) [0..<nat num_allergies]"

definition microseconds_per_day :: int where
  "microseconds_per_day = 86400000000"

text \<open>The local variables of an iteration once line 107 has run.\<close>

record sample_vars =
  v_num_drugs :: int
  v_selected_drugs :: "string list"
  v_num_contraindicated :: int
  v_num_serious :: int
  v_num_significant :: int
  v_num_minor :: int
  v_age_group :: string
  v_patient_age :: int
  v_is_geriatric :: bool
  v_has_renal_impairment :: bool
  v_has_hepatic_impairment :: bool
  v_num_chronic_conditions :: int
  v_polypharmacy :: bool
  v_num_allergies :: int

text \<open>Lines 47 to 107: the draws of the features, in the order of the source.\<close>

definition draw_features :: "('n, 'p) rng \<Rightarrow> 'n \<times> 'p \<Rightarrow> sample_vars \<times> ('n \<times> 'p)" where
  "draw_features R st =
     (case st of (s0, t0) \<Rightarrow>
      case draw_num_drugs R s0 of (num_drugs, s1) \<Rightarrow>
      case draw_selected_drugs R num_drugs t0 of (selected_drugs, t1) \<Rightarrow>
      case draw_contraindicated R num_drugs s1 of (num_contraindicated, s2) \<Rightarrow>
      case draw_serious R num_drugs s2 of (num_serious, s3) \<Rightarrow>
      case draw_significant R num_drugs s3 of (num_significant, s4) \<Rightarrow>
      case draw_minor R num_drugs s4 of (num_minor, s5) \<Rightarrow>
      case draw_age R s5 of ((grp, age), s6) \<Rightarrow>
      let is_geriatric = (age \<ge> 65) in
      case draw_comorbidities R is_geriatric s6 of ((renal, hepatic, num_chronic), s7) \<Rightarrow>
      let polypharmacy = (num_drugs \<ge> 5) in
      case draw_allergies R s7 of (num_allergies, s8) \<Rightarrow>
        (\<lparr>v_num_drugs = num_drugs, v_selected_drugs = selected_drugs,
          v_num_contraindicated = num_contraindicated, v_num_serious = num_serious,
          v_num_significant = num_significant, v_num_minor = num_minor,
          v_age_group = grp, v_patient_age = age, v_is_geriatric = is_geriatric,
          v_has_renal_impairment = renal, v_has_hepatic_impairment = hepatic,
          v_num_chronic_conditions = num_chronic, v_polypharmacy = polypharmacy,
          v_num_allergies = num_allergies\<rparr>,
         (s8, t1)))"

text \<open>Lines 109 to 198: score, label and the record appended to the result.\<close>

definition gen_example ::
  "('n, 'p) rng \<Rightarrow> (nat \<Rightarrow> int) \<Rightarrow> nat \<Rightarrow> 'n \<times> 'p \<Rightarrow> case_record \<times> ('n \<times> 'p)" where
  "gen_example R clock i st =
     (case draw_features R st of (v, (s8, t1)) \<Rightarrow>
      let score = risk_score_rule (v_num_contraindicated v) (v_num_serious v)
                    (v_num_significant v) (v_num_minor v) (v_patient_age v) (v_is_geriatric v)
                    (v_has_renal_impairment v) (v_has_hepatic_impairment v) (v_polypharmacy v)
                    (v_num_allergies v) (v_num_chronic_conditions v);
          base_prob = base_probability score (v_num_contraindicated v) (v_num_serious v)
                        (v_is_geriatric v) (v_has_renal_impairment v)
                        (v_has_hepatic_impairment v) in
      case np_normal R 0 (1/10) s8 of (noise, s9) \<Rightarrow>
      let final_prob = final_probability base_prob noise in
      case draw_outcome R final_prob (v_num_contraindicated v) (v_num_serious v) score s9 of
        (adverse, s10) \<Rightarrow>
      case py_randint R 0 365 t1 of (days, t2) \<Rightarrow>
        (\<lparr>drugs_checked = drug_entries (v_selected_drugs v),
          severity_summary =
            \<lparr>CONTRAINDICATED = v_num_contraindicated v, SERIOUS = v_num_serious v,
             SIGNIFICANT = v_num_significant v, MINOR = v_num_minor v\<rparr>,
          allergy_alerts = allergy_names (v_num_allergies v),
          patient_age = v_patient_age v,
          has_renal_impairment = v_has_renal_impairment v,
          has_hepatic_impairment = v_has_hepatic_impairment v,
          num_chronic_conditions = v_num_chronic_conditions v,
          adverse_event_occurred = adverse,
          risk_score = score,
          adverse_event_probability = final_prob,
          age_group = v_age_group v,
          generated_at = clock i - days * microseconds_per_day\<rparr>,
         (s10, t2)))"

text \<open>Line 160: the one Gaussian draw of the iteration that starts in state \<open>st\<close>.\<close>

definition noise_draw :: "('n, 'p) rng \<Rightarrow> 'n \<times> 'p \<Rightarrow> rat" where
  "noise_draw R st = fst (np_normal R 0 (1/10) (fst (snd (draw_features R st))))"

fun gen_loop ::
  "('n, 'p) rng \<Rightarrow> (nat \<Rightarrow> int) \<Rightarrow> nat list \<Rightarrow> 'n \<times> 'p \<Rightarrow> case_record list \<Rightarrow> case_record list" where
  "gen_loop R clock [] st training_data = training_data"
| "gen_loop R clock (i # rest) st training_data =
     (case gen_example R clock i st of
        (example, st') \<Rightarrow> gen_loop R clock rest st' (training_data @ [example]))"

text \<open>
  Lines 27 and 28 seed both generators with 42; \<^verbatim>\<open>range(n_samples)\<close> is empty for
  \<open>n_samples \<le> 0\<close>.
\<close>

definition generate_synthetic_training_data ::
  "('n, 'p) rng \<Rightarrow> (nat \<Rightarrow> int) \<Rightarrow> int \<Rightarrow> case_record list" where
  "generate_synthetic_training_data R clock n_samples =
     gen_loop R clock [0..<nat n_samples] (np_seed R 42, py_seed R 42) []"

subsection \<open>Saving the data (\<^verbatim>\<open>save_training_data\<close>)\<close>

text \<open>
  \<^verbatim>\<open>round(x, 1)\<close> rounds to one decimal, a tie going to the even neighbour. On exact
  rationals a tie is a value \<open>k/20\<close> with \<open>k\<close> odd.
\<close>

definition round_half_even :: "rat \<Rightarrow> int" where
  "round_half_even x =
     (let f = \<lfloor>x\<rfloor>; d = x - of_int f in
      if d < 1/2 then f else if d > 1/2 then f + 1 else if even f then f else f + 1)"

definition py_round1 :: "rat \<Rightarrow> rat" where
  "py_round1 x = of_int (round_half_even (x * 10)) / 10"

datatype cell = CInt int | CNum rat

definition bool_int :: "bool \<Rightarrow> int" where
  "bool_int b = (if b then 1 else 0)"

text \<open>
  Lines 275 to 290: the dictionary \<open>row\<close>, as the list of its items in insertion order,
  which is the order pandas gives the columns.
\<close>

definition csv_row :: "case_record \<Rightarrow> (string \<times> cell) list" where
  "csv_row example =
     [(''num_drugs'', CInt (int (length (drugs_checked example)))),
      (''num_contraindicated'', CInt (CONTRAINDICATED (severity_summary example))),
      (''num_serious'', CInt (SERIOUS (severity_summary example))),
      (''num_significant'', CInt (SIGNIFICANT (severity_summary example))),
      (''num_minor'', CInt (MINOR (severity_summary example))),
      (''patient_age'', CInt (patient_age example)),
      (''is_geriatric'', CInt (bool_int (patient_age example \<ge> 65))),
      (''has_renal_impairment'', CInt (bool_int (has_renal_impairment example))),
      (''has_hepatic_impairment'', CInt (bool_int (has_hepatic_impairment example))),
      (''num_chronic_conditions'', CInt (num_chronic_conditions example)),
      (''num_allergies'', CInt (int (length (allergy_alerts example)))),
      (''polypharmacy'', CInt (bool_int (int (length (drugs_checked example)) \<ge> 5))),
      (''risk_score'', CNum (py_round1 (risk_score example))),
      (''adverse_event'', CInt (adverse_event_occurred example))]"

record csv_table =
  columns :: "string list"
  table_rows :: "cell list list"

text \<open>
  \<^verbatim>\<open>pd.DataFrame(df_data)\<close> of a list of dictionaries with the same keys: the columns are
  the keys in their order, and there is none when the list is empty.
\<close>

definition data_frame :: "(string \<times> cell) list list \<Rightarrow> csv_table" where
  "data_frame df_data =
     \<lparr>columns = (case df_data of [] \<Rightarrow> [] | row # _ \<Rightarrow> map fst row),
      table_rows = map (map snd) df_data\<rparr>"

text \<open>\<^verbatim>\<open>filename.replace('.json', '.csv')\<close>; \<open>skip\<close> counts the characters of a match still to drop.\<close>

fun replace_json :: "nat \<Rightarrow> string \<Rightarrow> string" where
  "replace_json skip [] = []"
| "replace_json skip (c # cs) =
     (if skip > 0 then replace_json (skip - 1) cs
      else if take 5 (c # cs) = ''.json'' then ''.csv'' @ replace_json 4 cs
      else c # replace_json 0 cs)"

record saved_files =
  json_name :: string
  json_document :: "case_record list"
  csv_name :: string
  csv_document :: csv_table

definition save_training_data :: "case_record list \<Rightarrow> string \<Rightarrow> saved_files" where
  "save_training_data training_data filename =
     \<lparr>json_name = filename,
      json_document = training_data,
      csv_name = replace_json 0 filename,
      csv_document = data_frame (map csv_row training_data)\<rparr>"

subsection \<open>The training driver (\<^verbatim>\<open>train_ml_model.py\<close>)\<close>

text \<open>
  The driver reads \<^verbatim>\<open>training_data.json\<close>, checks it, and hands it to the predictor of
  \<^verbatim>\<open>services.ml_risk_predictor\<close>, which is not part of the sources. The file system and
  the predictor are the environment of the model:
  \<^item> the outcome of opening and parsing the file; a parsed file is taken to be an array
    of objects, which is what \<open>save_training_data\<close> writes;
  \<^item> \<open>fit\<close>, the call \<^verbatim>\<open>risk_predictor.train_model(training_data)\<close>, which returns the
    metrics or raises; it is the only place where a model is fitted and persisted;
  \<^item> the attribute \<^verbatim>\<open>risk_predictor.feature_importance\<close> and the call \<open>predict_risk\<close>.

  An exception value carries the name of its class, its message, and where its class
  stands under \<^verbatim>\<open>BaseException\<close>, which is what an \<^verbatim>\<open>except\<close> clause tests: an instance
  of \<^verbatim>\<open>Exception\<close>, an instance of \<^verbatim>\<open>KeyboardInterrupt\<close>, or any other instance of
  \<^verbatim>\<open>BaseException\<close> (\<^verbatim>\<open>SystemExit\<close>, \<^verbatim>\<open>asyncio.CancelledError\<close>, \<^verbatim>\<open>GeneratorExit\<close>).
  Each \<^verbatim>\<open>print\<close> (or block of them) is a message carrying the values it formats; the
  formatting itself is not modelled.
\<close>

datatype json =
  JNull | JBool bool | JInt int | JFloat rat | JString string
  | JArray "json list" | JObject "(string \<times> json) list"

type_synonym example = "(string \<times> json) list"

datatype exc_base = Exception_instance | KeyboardInterrupt_instance | BaseException_only

datatype py_exception = PyExc (exc_base: exc_base) (exc_class: string) (exc_msg: string)

datatype load_result = FileNotFound | JSONDecodeError string | Loaded "example list"

type_synonym metrics = "(string \<times> rat) list"

record prediction =
  p_risk_score :: rat
  p_risk_category :: string
  p_probability_adverse_event :: rat
  p_confidence :: rat

record env =
  load :: load_result
  fit :: "example list \<Rightarrow> py_exception + metrics"
  feature_importance :: "(string \<times> rat) list"
  predict_risk :: "example \<Rightarrow> py_exception + prediction"

datatype message =
  Banner
  | LoadingData
  | LoadedExamples nat
  | ErrFileNotFound
  | ErrInvalidJSON string
  | ValidatingData
  | ErrMissingField string nat
  | StructureValid
  | DataSummary nat rat rat rat
  | ClassImbalanceWarning rat
  | ClassBalanceOK
  | TrainingStart
  | TrainingComplete
  | MetricsHeader
  | MetricRow string rat string
  | MetricsFooter
  | SplitHeader
  | SplitTraining rat
  | SplitTest rat
  | SplitRatio rat
  | FeatureHeader
  | FeatureLine nat string int rat
  | ModelSaved
  | TestingPrediction
  | PredictionReport prediction
  | SuccessFooter
  | ErrDuringTraining string string
  | Troubleshooting
  | FullErrorDetails
  | TrainingInterrupted
  | UnexpectedError string

datatype outcome = Returned | Raised py_exception

record run =
  outcome :: outcome
  log :: "message list"
  fit_invoked :: bool

definition required_fields :: "string list" where
  "required_fields =
     [''drugs_checked'', ''severity_summary'', ''allergy_alerts'',
      ''patient_age'', ''has_renal_impairment'', ''has_hepatic_impairment'',
      ''num_chronic_conditions'', ''adverse_event_occurred'']"

text \<open>Lines 52 to 55: the first required field that is not a key of the example.\<close>

fun missing_field :: "string list \<Rightarrow> example \<Rightarrow> string option" where
  "missing_field [] example = None"
| "missing_field (field # rest) example =
     (if field \<notin> fst ` set example then Some field else missing_field rest example)"

text \<open>Lines 51 to 55, over \<^verbatim>\<open>enumerate(training_data[:5])\<close>.\<close>

fun first_missing :: "(nat \<times> example) list \<Rightarrow> (nat \<times> string) option" where
  "first_missing [] = None"
| "first_missing ((idx, example) # rest) =
     (case missing_field required_fields example of
        Some field \<Rightarrow> Some (idx, field)
      | None \<Rightarrow> first_missing rest)"

text \<open>
  Line 60: \<^verbatim>\<open>sum(ex['adverse_event_occurred'] for ex in training_data)\<close>. A missing key
  raises \<^verbatim>\<open>KeyError\<close>, a value that is not a number \<^verbatim>\<open>TypeError\<close>.
\<close>

fun py_number :: "json \<Rightarrow> rat option" where
  "py_number (JInt k) = Some (of_int k)"
| "py_number (JBool b) = Some (if b then 1 else 0)"
| "py_number (JFloat x) = Some x"
| "py_number _ = None"

fun sum_adverse :: "rat \<Rightarrow> example list \<Rightarrow> py_exception + rat" where
  "sum_adverse acc [] = Inr acc"
| "sum_adverse acc (ex # rest) =
     (case map_of ex ''adverse_event_occurred'' of
        None \<Rightarrow> Inl (PyExc Exception_instance ''KeyError'' ''adverse_event_occurred'')
      | Some v \<Rightarrow>
          (case py_number v of
             None \<Rightarrow> Inl (PyExc Exception_instance ''TypeError'' ''unsupported operand type(s) for +'')
           | Some x \<Rightarrow> sum_adverse (acc + x) rest))"

definition interpret_accuracy :: "rat \<Rightarrow> string" where
  "interpret_accuracy score =
     (if score \<ge> 90/100 then ''Excellent'' else if score \<ge> 80/100 then ''Good''
      else if score \<ge> 70/100 then ''Fair'' else ''Needs improvement'')"

definition interpret_precision :: "rat \<Rightarrow> string" where
  "interpret_precision score =
     (if score \<ge> 85/100 then ''Excellent'' else if score \<ge> 75/100 then ''Good''
      else if score \<ge> 65/100 then ''Fair'' else ''Low'')"

definition interpret_recall :: "rat \<Rightarrow> string" where
  "interpret_recall score =
     (if score \<ge> 85/100 then ''Excellent'' else if score \<ge> 75/100 then ''Good''
      else if score \<ge> 65/100 then ''Fair'' else ''Low - may miss events'')"

definition interpret_roc_auc :: "rat \<Rightarrow> string" where
  "interpret_roc_auc score =
     (if score \<ge> 90/100 then ''Excellent'' else if score \<ge> 80/100 then ''Good''
      else if score \<ge> 70/100 then ''Fair'' else ''Poor'')"

text \<open>\<^verbatim>\<open>metrics[key]\<close>.\<close>

definition metric :: "metrics \<Rightarrow> string \<Rightarrow> py_exception + rat" where
  "metric m key = (case map_of m key of None \<Rightarrow> Inl (PyExc Exception_instance ''KeyError'' key) | Some v \<Rightarrow> Inr v)"

text \<open>One line of the table, lines 90 to 93.\<close>

definition metric_row ::
  "metrics \<Rightarrow> string \<Rightarrow> string \<Rightarrow> rat \<Rightarrow> (rat \<Rightarrow> string) \<Rightarrow> py_exception + message list" where
  "metric_row m label key scale interpret =
     (case metric m key of
        Inl e \<Rightarrow> Inl e
      | Inr v \<Rightarrow> Inr [MetricRow label (v * scale) (interpret v)])"

text \<open>Lines 97 to 99.\<close>

definition split_training :: "metrics \<Rightarrow> py_exception + message list" where
  "split_training m =
     (case metric m ''training_samples'' of Inl e \<Rightarrow> Inl e | Inr v \<Rightarrow> Inr [SplitTraining v])"

definition split_test :: "metrics \<Rightarrow> py_exception + message list" where
  "split_test m =
     (case metric m ''test_samples'' of Inl e \<Rightarrow> Inl e | Inr v \<Rightarrow> Inr [SplitTest v])"

definition split_ratio :: "metrics \<Rightarrow> py_exception + message list" where
  "split_ratio m =
     (case metric m ''test_samples'' of
        Inl e \<Rightarrow> Inl e
      | Inr te \<Rightarrow>
          (case metric m ''training_samples'' of
             Inl e \<Rightarrow> Inl e
           | Inr tr \<Rightarrow>
               if tr + te = 0 then Inl (PyExc Exception_instance ''ZeroDivisionError'' ''division by zero'')
               else Inr [SplitRatio (te / (tr + te) * 100)]))"

text \<open>
  Lines 102 to 112: the five heaviest features; \<^verbatim>\<open>sorted(..., reverse=True)\<close> is stable.
\<close>

definition feature_lines :: "(string \<times> rat) list \<Rightarrow> message list" where
  "feature_lines importance =
     (if importance = [] then []
      else FeatureHeader #
        map (\<lambda>(i, (feature, w)). FeatureLine i feature (py_int (w * 30)) w)
          (enumerate 1 (take 5 (sort_key (\<lambda>(feature, w). - w) importance))))"

text \<open>Lines 118 to 126.\<close>

definition prediction_step :: "env \<Rightarrow> example list \<Rightarrow> py_exception + message list" where
  "prediction_step E training_data =
     (case training_data of
        [] \<Rightarrow> Inl (PyExc Exception_instance ''IndexError'' ''list index out of range'')
      | test_data # _ \<Rightarrow>
          (case predict_risk E test_data of
             Inl e \<Rightarrow> Inl e
           | Inr result \<Rightarrow> Inr [PredictionReport result]))"

text \<open>
  The statements of a \<^verbatim>\<open>try\<close> block in their order, each either printing or raising: the
  block prints until the first one that raises.
\<close>

fun run_steps :: "(py_exception + message list) list \<Rightarrow> message list \<times> py_exception option" where
  "run_steps [] = ([], None)"
| "run_steps (Inl e # rest) = ([], Some e)"
| "run_steps (Inr msgs # rest) = (case run_steps rest of (out, r) \<Rightarrow> (msgs @ out, r))"

text \<open>Lines 81 to 143, the body of the \<^verbatim>\<open>try\<close>.\<close>

definition try_body :: "env \<Rightarrow> example list \<Rightarrow> message list \<times> py_exception option" where
  "try_body E training_data =
     (case fit E training_data of
        Inl e \<Rightarrow> ([], Some e)
      | Inr m \<Rightarrow>
          run_steps
            [Inr [TrainingComplete, MetricsHeader],
             metric_row m ''Accuracy'' ''accuracy'' 100 interpret_accuracy,
             metric_row m ''Precision'' ''precision'' 100 interpret_precision,
             metric_row m ''Recall'' ''recall'' 100 interpret_recall,
             metric_row m ''ROC-AUC'' ''roc_auc'' 1 interpret_roc_auc,
             Inr [MetricsFooter, SplitHeader],
             split_training m,
             split_test m,
             split_ratio m,
             Inr (feature_lines (feature_importance E)),
             Inr [ModelSaved, TestingPrediction],
             prediction_step E training_data,
             Inr [SuccessFooter]])"

text \<open>
  Lines 80 to 156: the \<^verbatim>\<open>try\<close> with its handler \<^verbatim>\<open>except Exception as e\<close>. The handler
  runs for an instance of \<^verbatim>\<open>Exception\<close>; any other exception leaves the block as it came.
\<close>

definition train_and_report :: "env \<Rightarrow> example list \<Rightarrow> message list \<times> py_exception option" where
  "train_and_report E training_data =
     (case try_body E training_data of
        (out, None) \<Rightarrow> (out, None)
      | (out, Some e) \<Rightarrow>
          if exc_base e = Exception_instance then
            (out @ [ErrDuringTraining (exc_class e) (exc_msg e), Troubleshooting,
                    FullErrorDetails], None)
          else (out, Some e))"

definition train_model :: "env \<Rightarrow> run" where
  "train_model E =
     (case load E of
        FileNotFound \<Rightarrow>
          \<lparr>outcome = Returned, log = [Banner, LoadingData, ErrFileNotFound], fit_invoked = False\<rparr>
      | JSONDecodeError msg \<Rightarrow>
          \<lparr>outcome = Returned, log = [Banner, LoadingData, ErrInvalidJSON msg],
           fit_invoked = False\<rparr>
      | Loaded training_data \<Rightarrow>
          let l1 = [Banner, LoadingData, LoadedExamples (length training_data), ValidatingData] in
          (case first_missing (enumerate 0 (take 5 training_data)) of
             Some (idx, field) \<Rightarrow>
               \<lparr>outcome = Returned, log = l1 @ [ErrMissingField field idx], fit_invoked = False\<rparr>
           | None \<Rightarrow>
               let l2 = l1 @ [StructureValid] in
               (case sum_adverse 0 training_data of
                  Inl e \<Rightarrow> \<lparr>outcome = Raised e, log = l2, fit_invoked = False\<rparr>
                | Inr adverse_events \<Rightarrow>
                    if training_data = [] then
                      \<lparr>outcome = Raised (PyExc Exception_instance ''ZeroDivisionError'' ''division by zero''),
                       log = l2, fit_invoked = False\<rparr>
                    else
                      let no_events = of_nat (length training_data) - adverse_events;
                          adverse_rate = adverse_events / of_nat (length training_data) * 100;
                          l3 = l2 @ [DataSummary (length training_data) adverse_events
                                       no_events adverse_rate]
                                  @ [if adverse_rate < 10 \<or> adverse_rate > 90
                                     then ClassImbalanceWarning adverse_rate else ClassBalanceOK]
                                  @ [TrainingStart]
                      in (case train_and_report E training_data of
                            (out, None) \<Rightarrow>
                              \<lparr>outcome = Returned, log = l3 @ out, fit_invoked = True\<rparr>
                          | (out, Some e) \<Rightarrow>
                              \<lparr>outcome = Raised e, log = l3 @ out, fit_invoked = True\<rparr>))))"

text \<open>
  Lines 214 to 222: the script runs \<open>train_model\<close> under \<^verbatim>\<open>except KeyboardInterrupt\<close> and
  \<^verbatim>\<open>except Exception\<close>; \<^verbatim>\<open>asyncio.run\<close> hands on what the coroutine raises. Any other
  exception ends the script.
\<close>

definition main :: "env \<Rightarrow> run" where
  "main E =
     (let r = train_model E in
      case outcome r of
        Returned \<Rightarrow> r
      | Raised e \<Rightarrow>
          (case exc_base e of
             KeyboardInterrupt_instance \<Rightarrow>
               r\<lparr>outcome := Returned, log := log r @ [TrainingInterrupted]\<rparr>
           | Exception_instance \<Rightarrow>
               r\<lparr>outcome := Returned,
                 log := log r @ [UnexpectedError (exc_msg e), FullErrorDetails]\<rparr>
           | BaseException_only \<Rightarrow> r))"

subsection \<open>The statements of the specification\<close>

text \<open>
  The features the specification reads off a record, computed as lines 276 and 286 do:
  \<^verbatim>\<open>num_drugs\<close> is the length of \<^verbatim>\<open>drugs_checked\<close>, \<^verbatim>\<open>num_allergies\<close> that of
  \<^verbatim>\<open>allergy_alerts\<close>.
\<close>

definition num_drugs :: "case_record \<Rightarrow> int" where
  "num_drugs example = int (length (drugs_checked example))"

definition num_allergies :: "case_record \<Rightarrow> int" where
  "num_allergies example = int (length (allergy_alerts example))"

text \<open>
  The risk score in the words of the specification: the weighted sum of the four counts,
  times the factors for age, renal impairment, hepatic impairment and polypharmacy, plus
  the terms for allergies and chronic conditions, clamped to \<open>[0, 100]\<close>.
\<close>

definition spec_risk_score ::
  "int \<Rightarrow> int \<Rightarrow> int \<Rightarrow> int \<Rightarrow> int \<Rightarrow> bool \<Rightarrow> bool \<Rightarrow> int \<Rightarrow> int \<Rightarrow> int \<Rightarrow> rat" where
  "spec_risk_score n_contraindicated n_serious n_significant n_minor age renal hepatic
       n_drugs n_allergies n_chronic =
     max 0 (min 100
       (of_int (30 * n_contraindicated + 15 * n_serious + 7 * n_significant + 2 * n_minor)
          * (if age \<ge> 80 then 14/10 else if age \<ge> 65 then 13/10 else 1)
          * (if renal then 125/100 else 1)
          * (if hepatic then 125/100 else 1)
          * (if n_drugs \<ge> 5 then 12/10 else 1)
        + of_int (10 * n_allergies + 3 * n_chronic)))"

definition spec_risk_score_of :: "case_record \<Rightarrow> rat" where
  "spec_risk_score_of example =
     spec_risk_score (CONTRAINDICATED (severity_summary example))
       (SERIOUS (severity_summary example)) (SIGNIFICANT (severity_summary example))
       (MINOR (severity_summary example)) (patient_age example)
       (has_renal_impairment example) (has_hepatic_impairment example)
       (num_drugs example) (num_allergies example) (num_chronic_conditions example)"

text \<open>The label probability in the words of the specification, for a given noise draw.\<close>

definition spec_cap :: "rat \<Rightarrow> rat \<Rightarrow> rat \<Rightarrow> rat" where
  "spec_cap factor cap p = (if p * factor > cap then cap else p * factor)"

definition spec_label_probability ::
  "rat \<Rightarrow> int \<Rightarrow> int \<Rightarrow> int \<Rightarrow> bool \<Rightarrow> bool \<Rightarrow> rat \<Rightarrow> rat" where
  "spec_label_probability score n_contraindicated n_serious age renal hepatic noise =
     (let p0 = score / 100;
          p1 = (if n_contraindicated > 0 then spec_cap (25/10) (95/100) p0
                else if n_serious > 0 then spec_cap (18/10) (85/100) p0
                else p0);
          p2 = (if age \<ge> 65 then spec_cap (13/10) (90/100) p1 else p1);
          p3 = (if renal \<or> hepatic then spec_cap (12/10) (90/100) p2 else p2);
          p4 = p3 + noise
      in if p4 < 0 then 0 else if p4 > 1 then 1 else p4)"

text \<open>The columns of the tabular projection as the specification orders them.\<close>

definition spec_columns :: "string list" where
  "spec_columns =
     [''num_drugs'', ''num_contraindicated'', ''num_serious'', ''num_significant'',
      ''num_minor'', ''patient_age'', ''is_geriatric'', ''has_renal_impairment'',
      ''has_hepatic_impairment'', ''num_chronic_conditions'', ''polypharmacy'',
      ''num_allergies'', ''adverse_event'', ''risk_score'']"

text \<open>The columns as \<open>csv_row\<close> writes them.\<close>

definition written_columns :: "string list" where
  "written_columns =
     [''num_drugs'', ''num_contraindicated'', ''num_serious'', ''num_significant'',
      ''num_minor'', ''patient_age'', ''is_geriatric'', ''has_renal_impairment'',
      ''has_hepatic_impairment'', ''num_chronic_conditions'', ''num_allergies'',
      ''polypharmacy'', ''risk_score'', ''adverse_event'']"

text \<open>The cells of a row in the order of \<open>written_columns\<close>, as the specification derives them.\<close>

definition spec_cells :: "case_record \<Rightarrow> cell list" where
  "spec_cells example =
     [CInt (num_drugs example),
      CInt (CONTRAINDICATED (severity_summary example)),
      CInt (SERIOUS (severity_summary example)),
      CInt (SIGNIFICANT (severity_summary example)),
      CInt (MINOR (severity_summary example)),
      CInt (patient_age example),
      CInt (if patient_age example \<ge> 65 then 1 else 0),
      CInt (if has_renal_impairment example then 1 else 0),
      CInt (if has_hepatic_impairment example then 1 else 0),
      CInt (num_chronic_conditions example),
      CInt (num_allergies example),
      CInt (if num_drugs example \<ge> 5 then 1 else 0),
      CNum (py_round1 (risk_score example)),
      CInt (adverse_event_occurred example)]"



text \<open>A record without its time stamp.\<close>

definition without_timestamp :: "case_record \<Rightarrow> case_record" where
  "without_timestamp example = example\<lparr>generated_at := 0\<rparr>"

subsection \<open>Concrete inputs\<close>

text \<open>
  A random source to run the generator on: both generators are counters, and every draw
  is a function of the counter that meets \<open>rng_ok\<close>.
\<close>

definition counter_rng :: "(nat, nat) rng" where
  "counter_rng =
     \<lparr>np_seed = (\<lambda>k. nat k),
      np_choice = (\<lambda>p s. (s mod length p, Suc s)),
      np_poisson = (\<lambda>lam s. (int (s mod 4), Suc s)),
      np_uniform = (\<lambda>lo hi s. (if even s then lo else (lo + hi) / 2, Suc s)),
      np_random = (\<lambda>s. (of_nat (s mod 4) / 4, Suc s)),
      np_normal = (\<lambda>mu sigma s. (mu + sigma * (of_nat (s mod 3) - 1), Suc s)),
      py_seed = (\<lambda>k. nat k),
      py_sample = (\<lambda>pop k t. (take (nat k) (rotate (t mod length pop) pop), Suc t)),
      py_randint = (\<lambda>lo hi t. (lo + int t mod (hi - lo + 1), Suc t))\<rparr>"

definition morning :: "nat \<Rightarrow> int" where
  "morning i = 1700000000000000 + int i"

definition evening :: "nat \<Rightarrow> int" where
  "evening i = 1700040000000000 + int i"

text \<open>A complete example, and the same one without its age.\<close>

definition complete_example :: example where
  "complete_example =
     [(''drugs_checked'', JArray [JObject [(''drug_id'', JString ''DRUG_0''),
                                           (''drug_name'', JString ''Warfarin'')]]),
      (''severity_summary'', JObject [(''CONTRAINDICATED'', JInt 0), (''SERIOUS'', JInt 0),
                                      (''SIGNIFICANT'', JInt 0), (''MINOR'', JInt 1)]),
      (''allergy_alerts'', JArray []),
      (''patient_age'', JInt 30),
      (''has_renal_impairment'', JBool False),
      (''has_hepatic_impairment'', JBool False),
      (''num_chronic_conditions'', JInt 0),
      (''adverse_event_occurred'', JInt 1)]"


definition failing_fit :: "example list \<Rightarrow> py_exception + metrics" where
  "failing_fit training_data =
     Inl (PyExc Exception_instance ''ValueError'' ''The least populated class in y has only 1 member'')"

text \<open>A training call interrupted from the keyboard while it runs.\<close>

definition interrupted_fit :: "example list \<Rightarrow> py_exception + metrics" where
  "interrupted_fit training_data = Inl (PyExc KeyboardInterrupt_instance ''KeyboardInterrupt'' [])"

definition sample_env ::
  "(example list \<Rightarrow> py_exception + metrics) \<Rightarrow> example list \<Rightarrow> env" where
  "sample_env fit_call training_data =
     \<lparr>load = Loaded training_data,
      fit = fit_call,
      feature_importance = [],
      predict_risk = (\<lambda>ex. Inl (PyExc Exception_instance ''RuntimeError'' ''no model''))\<rparr>"

text \<open>
  A random source that keeps \<open>rng_ok\<close> and draws a chosen case first: the \<open>k\<close>-th drug
  count, one contraindicated interaction when the count allows it, no other interaction,
  age 30, no impairment, no chronic condition and no allergy.
\<close>

definition scripted_rng :: "nat \<Rightarrow> (nat, nat) rng" where
  "scripted_rng k =
     \<lparr>np_seed = (\<lambda>seed. 0),
      np_choice = (\<lambda>p s. ((if s = 0 then k else if s = 1 then 1 else 0) mod length p, Suc s)),
      np_poisson = (\<lambda>lam s. (0, Suc s)),
      np_uniform = (\<lambda>lo hi s. (if lo + 12 < hi then lo + 12 else lo, Suc s)),
      np_random = (\<lambda>s. (1/2, Suc s)),
      np_normal = (\<lambda>mu sigma s. (mu, Suc s)),
      py_seed = (\<lambda>seed. 0),
      py_sample = (\<lambda>pop n t. (take (nat n) pop, Suc t)),
      py_randint = (\<lambda>lo hi t. (lo, Suc t))\<rparr>"

subsection \<open>What the draws of an iteration satisfy\<close>

definition vars_ok :: "sample_vars \<Rightarrow> bool" where
  "vars_ok v \<longleftrightarrow>
     1 \<le> v_num_drugs v \<and> v_num_drugs v \<le> 10 \<and>
     int (length (v_selected_drugs v)) = v_num_drugs v \<and>
     0 \<le> v_num_contraindicated v \<and> v_num_contraindicated v \<le> 2 \<and>
     0 \<le> v_num_serious v \<and> v_num_serious v \<le> 3 \<and>
     0 \<le> v_num_significant v \<and> v_num_significant v \<le> v_num_drugs v \<and>
     0 \<le> v_num_minor v \<and> v_num_minor v \<le> 2 * v_num_drugs v \<and>
     18 \<le> v_patient_age v \<and> v_patient_age v \<le> 94 \<and>
     v_is_geriatric v = (v_patient_age v \<ge> 65) \<and>
     0 \<le> v_num_chronic_conditions v \<and> v_num_chronic_conditions v \<le> 6 \<and>
     v_polypharmacy v = (v_num_drugs v \<ge> 5) \<and>
     0 \<le> v_num_allergies v \<and> v_num_allergies v \<le> 3"

section \<open>Properties of the generator\<close>

subsection \<open>The ranges of the draws\<close>


lemma choice_mem:
  assumes "rng_ok R" "p \<noteq> []" "length a = length p" "choice R a p s = (v, s')"
  shows "v \<in> set a"
proof -
  have "fst (np_choice R p s) < length p" using assms(1,2) by (simp add: rng_ok_def)
  then show ?thesis using assms(3,4) by (auto simp: choice_def split: prod.splits)
qed

lemma draw_num_drugs_range:
  "rng_ok R \<Longrightarrow> draw_num_drugs R s = (v, s') \<Longrightarrow> 1 \<le> v \<and> v \<le> 10"
  unfolding draw_num_drugs_def by (drule (1) choice_mem[rotated 3]) auto

lemma draw_contraindicated_range:
  "rng_ok R \<Longrightarrow> draw_contraindicated R nd s = (v, s') \<Longrightarrow> 0 \<le> v \<and> v \<le> 2"
  unfolding draw_contraindicated_def
  by (auto split: if_splits dest!: choice_mem[rotated 3])

lemma draw_serious_range:
  "rng_ok R \<Longrightarrow> draw_serious R nd s = (v, s') \<Longrightarrow> 0 \<le> v \<and> v \<le> 3"
  unfolding draw_serious_def
  by (auto split: if_splits dest!: choice_mem[rotated 3])

lemma draw_allergies_range:
  "rng_ok R \<Longrightarrow> draw_allergies R s = (v, s') \<Longrightarrow> 0 \<le> v \<and> v \<le> 3"
  unfolding draw_allergies_def
  by (auto split: if_splits dest!: choice_mem[rotated 3])

lemma poisson_nonneg: "rng_ok R \<Longrightarrow> np_poisson R lam s = (v, s') \<Longrightarrow> 0 \<le> v"
  by (metis fst_conv rng_ok_def)

lemma draw_significant_range:
  "rng_ok R \<Longrightarrow> 1 \<le> nd \<Longrightarrow> draw_significant R nd s = (v, s') \<Longrightarrow> 0 \<le> v \<and> v \<le> nd"
  unfolding draw_significant_def
  by (auto split: if_splits prod.splits dest: poisson_nonneg)

lemma draw_minor_range:
  "rng_ok R \<Longrightarrow> 1 \<le> nd \<Longrightarrow> draw_minor R nd s = (v, s') \<Longrightarrow> 0 \<le> v \<and> v \<le> 2 * nd"
  unfolding draw_minor_def
  by (auto split: if_splits prod.splits dest: poisson_nonneg)

lemma uniform_range:
  "rng_ok R \<Longrightarrow> lo < hi \<Longrightarrow> np_uniform R lo hi s = (u, s') \<Longrightarrow> lo \<le> u \<and> u < hi"
  by (metis fst_conv rng_ok_def)

lemma py_int_range:
  assumes "of_int a \<le> u" "u < of_int b" "0 \<le> a"
  shows "a \<le> py_int u \<and> py_int u < b"
proof -
  have "0 \<le> u" using assms(1,3) by (meson of_int_0_le_iff order_trans)
  then have "py_int u = \<lfloor>u\<rfloor>" by (simp add: py_int_def)
  then show ?thesis using assms by (simp add: le_floor_iff floor_less_iff)
qed

lemma draw_age_range:
  assumes "rng_ok R" "draw_age R s = ((g, a), s')"
  shows "18 \<le> a \<and> a \<le> 94"
proof -
  have r: "lo \<le> py_int u \<and> py_int u < hi"
    if "np_uniform R (of_int lo) (of_int hi) s = (u, s')" "lo < hi" "0 \<le> lo" for lo hi s u s'
  proof -
    have "of_int lo \<le> u \<and> u < of_int hi"
      using uniform_range[OF assms(1) _ that(1)] that(2) by simp
    then show ?thesis using py_int_range that(3) by blast
  qed
  have r1: "np_uniform R 18 40 s = (u, s') \<Longrightarrow> 18 \<le> py_int u \<and> py_int u \<le> 94" for s u s'
    using r[of 18 40 s u s'] by simp
  have r2: "np_uniform R 40 65 s = (u, s') \<Longrightarrow> 18 \<le> py_int u \<and> py_int u \<le> 94" for s u s'
    using r[of 40 65 s u s'] by simp
  have r3: "np_uniform R 65 95 s = (u, s') \<Longrightarrow> 18 \<le> py_int u \<and> py_int u \<le> 94" for s u s'
    using r[of 65 95 s u s'] by simp
  show ?thesis using assms(2)
    unfolding draw_age_def
    by (auto split: if_splits prod.splits dest!: r1 r2 r3)
qed

lemma draw_selected_length:
  assumes "rng_ok R" "1 \<le> nd" "nd \<le> 10" "draw_selected_drugs R nd t = (ds, t')"
  shows "int (length ds) = nd"
proof -
  have m: "min nd (int (length common_drugs)) = nd"
    using assms(3) by (simp add: common_drugs_def)
  have "0 \<le> nd \<and> nd \<le> int (length common_drugs)"
    using assms(2,3) by (simp add: common_drugs_def)
  then have "int (length (fst (py_sample R common_drugs nd t))) = nd"
    using assms(1) unfolding rng_ok_def by blast
  then show ?thesis using assms(4) m by (simp add: draw_selected_drugs_def)
qed


lemma draw_comorbidities_range:
  "rng_ok R \<Longrightarrow> draw_comorbidities R g s = ((r, h, c), s') \<Longrightarrow> 0 \<le> c \<and> c \<le> 6"
  unfolding draw_comorbidities_def
  by (auto split: if_splits prod.splits dest!: choice_mem[rotated 3])

lemma draw_features_ok:
  assumes "rng_ok R"
  shows "vars_ok (fst (draw_features R st))"
proof -
  obtain s0 t0 where st: "st = (s0, t0)" by (cases st)
  obtain nd s1 where a1: "draw_num_drugs R s0 = (nd, s1)" by (cases "draw_num_drugs R s0")
  obtain sel t1 where a2: "draw_selected_drugs R nd t0 = (sel, t1)" by (cases "draw_selected_drugs R nd t0")
  obtain nc s2 where a3: "draw_contraindicated R nd s1 = (nc, s2)" by (cases "draw_contraindicated R nd s1")
  obtain ns s3 where a4: "draw_serious R nd s2 = (ns, s3)" by (cases "draw_serious R nd s2")
  obtain ng s4 where a5: "draw_significant R nd s3 = (ng, s4)" by (cases "draw_significant R nd s3")
  obtain nm s5 where a6: "draw_minor R nd s4 = (nm, s5)" by (cases "draw_minor R nd s4")
  obtain g a s6 where a7: "draw_age R s5 = ((g, a), s6)" by (cases "draw_age R s5") auto
  obtain r h c s7 where a8: "draw_comorbidities R (a \<ge> 65) s6 = ((r, h, c), s7)"
    by (cases "draw_comorbidities R (a \<ge> 65) s6") auto
  obtain al s8 where a9: "draw_allergies R s7 = (al, s8)" by (cases "draw_allergies R s7")
  note R = assms
  have b1: "1 \<le> nd \<and> nd \<le> 10" using draw_num_drugs_range[OF R a1] .
  have b2: "int (length sel) = nd" using draw_selected_length[OF R _ _ a2] b1 by simp
  have b3: "0 \<le> nc \<and> nc \<le> 2" using draw_contraindicated_range[OF R a3] .
  have b4: "0 \<le> ns \<and> ns \<le> 3" using draw_serious_range[OF R a4] .
  have b5: "0 \<le> ng \<and> ng \<le> nd" using draw_significant_range[OF R _ a5] b1 by simp
  have b6: "0 \<le> nm \<and> nm \<le> 2 * nd" using draw_minor_range[OF R _ a6] b1 by simp
  have b7: "18 \<le> a \<and> a \<le> 94" using draw_age_range[OF R a7] .
  have b8: "0 \<le> c \<and> c \<le> 6" using draw_comorbidities_range[OF R a8] .
  have b9: "0 \<le> al \<and> al \<le> 3" using draw_allergies_range[OF R a9] .
  show ?thesis
    unfolding draw_features_def st
    using b1 b2 b3 b4 b5 b6 b7 b8 b9
    by (simp add: a1 a2 a3 a4 a5 a6 a7 a8 a9 vars_ok_def)
qed

lemma gen_loop_length: "length (gen_loop R clock is st acc) = length acc + length is"
  by (induction "is" arbitrary: st acc) (auto split: prod.splits)

lemma gen_loop_set:
  "x \<in> set (gen_loop R clock is st acc) \<Longrightarrow>
     x \<in> set acc \<or> (\<exists>i st0. x = fst (gen_example R clock i st0))"
proof (induction "is" arbitrary: st acc)
  case Nil
  then show ?case by simp
next
  case (Cons i rest)
  obtain ex st' where g: "gen_example R clock i st = (ex, st')" by (cases "gen_example R clock i st")
  from Cons.prems g have "x \<in> set (gen_loop R clock rest st' (acc @ [ex]))" by simp
  from Cons.IH[OF this] show ?case using g by (metis Un_iff fst_conv insert_iff list.set(2) empty_iff list.set(1) set_append)
qed

lemma generate_set:
  "x \<in> set (generate_synthetic_training_data R clock n) \<Longrightarrow> \<exists>i st0. x = fst (gen_example R clock i st0)"
  unfolding generate_synthetic_training_data_def by (drule gen_loop_set) simp


lemma rng_ok_counter: "rng_ok counter_rng"
  unfolding rng_ok_def counter_rng_def
  by (auto simp: min_def)

lemma rng_ok_scripted: "rng_ok (scripted_rng k)"
  unfolding rng_ok_def scripted_rng_def
  by (auto simp: min_def)


subsection \<open>The fields of a generated record\<close>


lemma draw_features_geriatric:
  "v_is_geriatric (fst (draw_features R st)) = (v_patient_age (fst (draw_features R st)) \<ge> 65)"
  by (simp add: draw_features_def Let_def split: prod.splits)

lemma gen_example_fields:
  fixes R :: "('n, 'p) rng"
  defines "v \<equiv> \<lambda>st. fst (draw_features R st)"
  shows "drugs_checked (fst (gen_example R clock i st)) = drug_entries (v_selected_drugs (v st))"
    and "severity_summary (fst (gen_example R clock i st)) =
           \<lparr>CONTRAINDICATED = v_num_contraindicated (v st), SERIOUS = v_num_serious (v st),
            SIGNIFICANT = v_num_significant (v st), MINOR = v_num_minor (v st)\<rparr>"
    and "allergy_alerts (fst (gen_example R clock i st)) = allergy_names (v_num_allergies (v st))"
    and "patient_age (fst (gen_example R clock i st)) = v_patient_age (v st)"
    and "has_renal_impairment (fst (gen_example R clock i st)) = v_has_renal_impairment (v st)"
    and "has_hepatic_impairment (fst (gen_example R clock i st)) = v_has_hepatic_impairment (v st)"
    and "num_chronic_conditions (fst (gen_example R clock i st)) = v_num_chronic_conditions (v st)"
    and "risk_score (fst (gen_example R clock i st)) =
           risk_score_rule (v_num_contraindicated (v st)) (v_num_serious (v st))
             (v_num_significant (v st)) (v_num_minor (v st)) (v_patient_age (v st))
             (v_is_geriatric (v st)) (v_has_renal_impairment (v st))
             (v_has_hepatic_impairment (v st)) (v_polypharmacy (v st))
             (v_num_allergies (v st)) (v_num_chronic_conditions (v st))"
  unfolding v_def by (simp_all add: gen_example_def Let_def split: prod.splits)

lemma length_drug_entries: "length (drug_entries ds) = length ds"
  by (simp add: drug_entries_def)

lemma length_allergy_names: "length (allergy_names k) = nat k"
  by (simp add: allergy_names_def)

lemma generate_length: "length (generate_synthetic_training_data R clock n) = nat n"
  by (simp add: generate_synthetic_training_data_def gen_loop_length)

lemma generate_hd:
  assumes "0 < n"
  shows "hd (generate_synthetic_training_data R clock n)
           \<in> set (generate_synthetic_training_data R clock n)"
proof -
  have "length (generate_synthetic_training_data R clock n) \<noteq> 0"
    using assms by (simp add: generate_length)
  then show ?thesis by (simp add: hd_in_set)
qed

subsection \<open>The score of the code and the formula of the specification\<close>


lemma risk_score_raw_eq:
  "risk_score_raw nc ns ng nm age (age \<ge> 65) renal hepatic (nd \<ge> 5) nal nch =
     of_int (30 * nc + 15 * ns + 7 * ng + 2 * nm)
       * (if age \<ge> 80 then 14/10 else if age \<ge> 65 then 13/10 else 1)
       * (if renal then 125/100 else 1)
       * (if hepatic then 125/100 else 1)
       * (if nd \<ge> 5 then 12/10 else 1)
     + of_int (10 * nal + 3 * nch)"
  by (simp add: risk_score_raw_def Let_def algebra_simps)

lemma risk_score_raw_nonneg:
  assumes "0 \<le> nc" "0 \<le> ns" "0 \<le> ng" "0 \<le> nm" "0 \<le> nal" "0 \<le> nch"
  shows "0 \<le> risk_score_raw nc ns ng nm age g renal hepatic poly nal nch"
proof -
  have w: "(0::rat) \<le> of_int nc * 30 + of_int ns * 15 + of_int ng * 7 + of_int nm * 2"
    using assms by simp
  have t: "(0::rat) \<le> of_int nal * 10 + of_int nch * 3" using assms by simp
  define f :: rat where "f = (if age \<ge> 80 then 14/10 else if g then 13/10 else 1)
      * (if renal then 125/100 else 1) * (if hepatic then 125/100 else 1)
      * (if poly then 12/10 else 1)"
  have f: "0 \<le> f" unfolding f_def by simp
  have "risk_score_raw nc ns ng nm age g renal hepatic poly nal nch =
      (of_int nc * 30 + of_int ns * 15 + of_int ng * 7 + of_int nm * 2) * f
      + (of_int nal * 10 + of_int nch * 3)"
    unfolding f_def by (simp add: risk_score_raw_def Let_def)
  then show ?thesis using w t f by simp
qed

lemma risk_score_rule_spec:
  assumes "0 \<le> nc" "0 \<le> ns" "0 \<le> ng" "0 \<le> nm" "0 \<le> nal" "0 \<le> nch"
  shows "risk_score_rule nc ns ng nm age (age \<ge> 65) renal hepatic (nd \<ge> 5) nal nch =
         spec_risk_score nc ns ng nm age renal hepatic nd nal nch"
proof -
  have "0 \<le> risk_score_raw nc ns ng nm age (age \<ge> 65) renal hepatic (nd \<ge> 5) nal nch"
    using risk_score_raw_nonneg[OF assms] .
  then have "risk_score_rule nc ns ng nm age (age \<ge> 65) renal hepatic (nd \<ge> 5) nal nch =
      max 0 (min 100 (risk_score_raw nc ns ng nm age (age \<ge> 65) renal hepatic (nd \<ge> 5) nal nch))"
    unfolding risk_score_rule_def by (simp add: min.commute)
  then show ?thesis unfolding spec_risk_score_def risk_score_raw_eq .
qed

lemma generated_risk_score:
  assumes "rng_ok R"
  shows "risk_score (fst (gen_example R clock i st)) = spec_risk_score_of (fst (gen_example R clock i st))"
proof -
  define v where "v = fst (draw_features R st)"
  have ok: "vars_ok v" unfolding v_def using draw_features_ok[OF assms] .
  have nd: "num_drugs (fst (gen_example R clock i st)) = v_num_drugs v"
    using ok by (simp add: num_drugs_def gen_example_fields length_drug_entries vars_ok_def v_def)
  have nal: "num_allergies (fst (gen_example R clock i st)) = v_num_allergies v"
    using ok by (simp add: num_allergies_def gen_example_fields length_allergy_names vars_ok_def v_def)
  have g: "v_is_geriatric v = (v_patient_age v \<ge> 65)" "v_polypharmacy v = (v_num_drugs v \<ge> 5)"
    using ok by (simp_all add: vars_ok_def)
  have nn: "0 \<le> v_num_contraindicated v" "0 \<le> v_num_serious v" "0 \<le> v_num_significant v"
    "0 \<le> v_num_minor v" "0 \<le> v_num_allergies v" "0 \<le> v_num_chronic_conditions v"
    using ok by (simp_all add: vars_ok_def)
  show ?thesis
    unfolding spec_risk_score_of_def nd nal
    by (simp add: gen_example_fields v_def[symmetric] g risk_score_rule_spec[OF nn])
qed

lemma min_cap: "spec_cap f c p = min (p * f) c"
  by (simp add: spec_cap_def min_def)

subsection \<open>The clock reaches the time stamp only\<close>


lemma gen_example_clock_state:
  "snd (gen_example R c1 i st) = snd (gen_example R c2 j st)"
  by (simp add: gen_example_def Let_def case_prod_beta)

lemma gen_example_clock_fields:
  "without_timestamp (fst (gen_example R c1 i st)) = without_timestamp (fst (gen_example R c2 j st))"
  by (simp add: gen_example_def Let_def without_timestamp_def case_prod_beta)

lemma gen_example_same_clock:
  "c1 i = c2 i \<Longrightarrow> gen_example R c1 i st = gen_example R c2 i st"
  by (simp add: gen_example_def Let_def case_prod_beta)



lemma gen_loop_without_timestamp:
  "map without_timestamp acc1 = map without_timestamp acc2 \<Longrightarrow>
   map without_timestamp (gen_loop R c1 is st acc1) = map without_timestamp (gen_loop R c2 is st acc2)"
proof (induction "is" arbitrary: st acc1 acc2)
  case Nil
  then show ?case by simp
next
  case (Cons i rest)
  obtain e1 s1 where g1: "gen_example R c1 i st = (e1, s1)" by (cases "gen_example R c1 i st")
  obtain e2 s2 where g2: "gen_example R c2 i st = (e2, s2)" by (cases "gen_example R c2 i st")
  have s: "s1 = s2" using gen_example_clock_state[of R c1 i st c2 i] g1 g2 by simp
  have e: "without_timestamp e1 = without_timestamp e2"
    using gen_example_clock_fields[of R c1 i st c2 i] g1 g2 by simp
  have m: "map without_timestamp (acc1 @ [e1]) = map without_timestamp (acc2 @ [e2])"
    using Cons.prems e by simp
  have l1: "gen_loop R c1 (i # rest) st acc1 = gen_loop R c1 rest s2 (acc1 @ [e1])"
    by (simp add: g1 s)
  have l2: "gen_loop R c2 (i # rest) st acc2 = gen_loop R c2 rest s2 (acc2 @ [e2])"
    by (simp add: g2)
  show ?case unfolding l1 l2 by (rule Cons.IH[OF m])
qed



lemma gen_loop_same_clock:
  "\<forall>i \<in> set is. c1 i = c2 i \<Longrightarrow> gen_loop R c1 is st acc = gen_loop R c2 is st acc"
proof (induction "is" arbitrary: st acc)
  case Nil
  show ?case by simp
next
  case (Cons i rest)
  have h: "c1 i = c2 i" using Cons.prems by simp
  have r: "\<forall>k \<in> set rest. c1 k = c2 k" using Cons.prems by simp
  have g: "gen_example R c1 i st = gen_example R c2 i st"
    using h by (rule gen_example_same_clock)
  obtain e s where g2: "gen_example R c2 i st = (e, s)" by (cases "gen_example R c2 i st")
  have l1: "gen_loop R c1 (i # rest) st acc = gen_loop R c1 rest s (acc @ [e])"
    by (simp add: g g2)
  have l2: "gen_loop R c2 (i # rest) st acc = gen_loop R c2 rest s (acc @ [e])"
    by (simp add: g2)
  show ?case unfolding l1 l2 by (rule Cons.IH[OF r])
qed

section \<open>Properties of saving and of the driver\<close>

subsection \<open>The table written beside the document\<close>

lemma csv_row_columns: "map fst (csv_row example) = written_columns"
  by (simp add: csv_row_def written_columns_def)

lemma csv_row_cells: "map snd (csv_row example) = spec_cells example"
  by (simp add: csv_row_def spec_cells_def num_drugs_def num_allergies_def bool_int_def)

lemma data_frame_columns:
  "columns (data_frame (map csv_row training_data)) =
     (if training_data = [] then [] else written_columns)"
  by (cases training_data) (simp_all add: data_frame_def csv_row_columns)

lemma data_frame_rows:
  "table_rows (data_frame (map csv_row training_data)) = map spec_cells training_data"
  by (simp add: data_frame_def csv_row_cells)

subsection \<open>The check of the required fields\<close>


lemma missing_field_Some:
  "missing_field fs example = Some f \<Longrightarrow> f \<in> set fs \<and> f \<notin> fst ` set example"
  by (induction fs) (auto split: if_splits)


lemma first_missing_Some:
  "first_missing ps = Some (idx, f) \<Longrightarrow>
     \<exists>example. (idx, example) \<in> set ps \<and> f \<in> set required_fields \<and> f \<notin> fst ` set example"
proof (induction ps rule: first_missing.induct)
  case 1
  then show ?case by simp
next
  case (2 i ex rest)
  show ?case
  proof (cases "missing_field required_fields ex")
    case None
    then have "first_missing rest = Some (idx, f)" using 2(2) by simp
    from 2(1)[OF None this] show ?thesis by auto
  next
    case (Some g)
    then have "idx = i" "f = g" using 2(2) by simp_all
    then show ?thesis using missing_field_Some[OF Some] by auto
  qed
qed





subsection \<open>The guarded call of the predictor\<close>

lemma train_and_report_fit_raises:
  "fit E td = Inl e \<Longrightarrow> exc_base e = Exception_instance \<Longrightarrow>
     train_and_report E td =
       ([ErrDuringTraining (exc_class e) (exc_msg e), Troubleshooting, FullErrorDetails], None)"
  by (simp add: train_and_report_def try_body_def)

lemma main_of_returned: "outcome (train_model E) = Returned \<Longrightarrow> outcome (main E) = Returned"
  by (simp add: main_def Let_def)

lemma train_model_invoked:
  assumes "load E = Loaded td" and "fit_invoked (train_model E)"
  shows "outcome (train_model E) =
           (case snd (train_and_report E td) of None \<Rightarrow> Returned | Some e \<Rightarrow> Raised e) \<and>
         (\<exists>before. log (train_model E) = before @ fst (train_and_report E td))"
  using assms
  by (auto simp: train_model_def Let_def split: option.splits sum.splits if_splits prod.splits)

section \<open>The claims\<close>

text \<open>
  C5. The rule-based risk score before the cap is monotonic in the number of
  contraindicated interactions: with every other input held fixed, one more
  contraindicated interaction never lowers it.
\<close>

theorem risk_score_monotone_in_contraindicated:
  "risk_score_raw n_contra n_serious n_significant n_minor age is_geriatric renal hepatic
       polypharmacy n_allergies n_chronic
   \<le> risk_score_raw (n_contra + 1) n_serious n_significant n_minor age is_geriatric renal hepatic
       polypharmacy n_allergies n_chronic"
  by (simp add: risk_score_raw_def Let_def)


text \<open>
  C1. The claim: every generated case carries the risk score of the formula, and in
  particular a case with one contraindicated interaction, age 30, no impairments, no
  allergies and no chronic conditions scores exactly 30. Lines 129 and 130 multiply the
  score by \<open>1.2\<close> from five drugs on, which the particular case does not exclude. The
  counterexample is a generated case that meets every condition named, and has no other
  interaction either: with its five drugs it scores 36.
\<close>

theorem five_drugs_counterexample:
  "rng_ok (scripted_rng 4) \<and>
   hd (generate_synthetic_training_data (scripted_rng 4) morning 1)
     \<in> set (generate_synthetic_training_data (scripted_rng 4) morning 1) \<and>
   CONTRAINDICATED (severity_summary (hd (generate_synthetic_training_data (scripted_rng 4) morning 1))) = 1 \<and>
   SERIOUS (severity_summary (hd (generate_synthetic_training_data (scripted_rng 4) morning 1))) = 0 \<and>
   SIGNIFICANT (severity_summary (hd (generate_synthetic_training_data (scripted_rng 4) morning 1))) = 0 \<and>
   MINOR (severity_summary (hd (generate_synthetic_training_data (scripted_rng 4) morning 1))) = 0 \<and>
   num_drugs (hd (generate_synthetic_training_data (scripted_rng 4) morning 1)) = 5 \<and>
   patient_age (hd (generate_synthetic_training_data (scripted_rng 4) morning 1)) = 30 \<and>
   \<not> has_renal_impairment (hd (generate_synthetic_training_data (scripted_rng 4) morning 1)) \<and>
   \<not> has_hepatic_impairment (hd (generate_synthetic_training_data (scripted_rng 4) morning 1)) \<and>
   num_allergies (hd (generate_synthetic_training_data (scripted_rng 4) morning 1)) = 0 \<and>
   num_chronic_conditions (hd (generate_synthetic_training_data (scripted_rng 4) morning 1)) = 0 \<and>
   risk_score (hd (generate_synthetic_training_data (scripted_rng 4) morning 1)) = 36 \<and>
   risk_score (hd (generate_synthetic_training_data (scripted_rng 4) morning 1)) \<noteq> 30"
proof -
  have a: "CONTRAINDICATED (severity_summary (hd (generate_synthetic_training_data (scripted_rng 4) morning 1))) = 1 \<and>
   SERIOUS (severity_summary (hd (generate_synthetic_training_data (scripted_rng 4) morning 1))) = 0 \<and>
   SIGNIFICANT (severity_summary (hd (generate_synthetic_training_data (scripted_rng 4) morning 1))) = 0 \<and>
   MINOR (severity_summary (hd (generate_synthetic_training_data (scripted_rng 4) morning 1))) = 0 \<and>
   num_drugs (hd (generate_synthetic_training_data (scripted_rng 4) morning 1)) = 5 \<and>
   patient_age (hd (generate_synthetic_training_data (scripted_rng 4) morning 1)) = 30 \<and>
   \<not> has_renal_impairment (hd (generate_synthetic_training_data (scripted_rng 4) morning 1)) \<and>
   \<not> has_hepatic_impairment (hd (generate_synthetic_training_data (scripted_rng 4) morning 1)) \<and>
   num_allergies (hd (generate_synthetic_training_data (scripted_rng 4) morning 1)) = 0 \<and>
   num_chronic_conditions (hd (generate_synthetic_training_data (scripted_rng 4) morning 1)) = 0 \<and>
   risk_score (hd (generate_synthetic_training_data (scripted_rng 4) morning 1)) = 36"
    by code_simp
  show ?thesis using a rng_ok_scripted[of 4] generate_hd[of 1 "scripted_rng 4" morning] by simp
qed

text \<open>
  C1, as amended: every generated case carries the risk score of the specification's
  formula: the weighted sum \<open>30, 15, 7, 2\<close> of the four counts, times \<open>1.4\<close> from age 80
  or else \<open>1.3\<close> from age 65, times \<open>1.25\<close> for renal and again for hepatic impairment,
  times \<open>1.2\<close> from five drugs, plus \<open>10\<close> per allergy and \<open>3\<close> per chronic condition,
  clamped to \<open>[0, 100]\<close>. In particular a case with fewer than five drugs, one
  contraindicated interaction and no other interaction, age 30, no impairments, no
  allergies and no chronic conditions scores exactly 30, as a generated case and as an
  input of the scoring rule; ten contraindicated interactions score exactly 100;
  whenever the score before the cap exceeds 100 the score is exactly 100, and it is
  never more. The generated cases are those of a random source that keeps the promises
  of its documentation.
\<close>

theorem rule_based_risk_score:
  assumes "rng_ok R"
  shows "(\<forall>ex \<in> set (generate_synthetic_training_data R clock n).
            risk_score ex = spec_risk_score_of ex) \<and>
         (\<forall>ex \<in> set (generate_synthetic_training_data R clock n).
            CONTRAINDICATED (severity_summary ex) = 1 \<and> SERIOUS (severity_summary ex) = 0 \<and>
            SIGNIFICANT (severity_summary ex) = 0 \<and> MINOR (severity_summary ex) = 0 \<and>
            num_drugs ex < 5 \<and> patient_age ex = 30 \<and>
            \<not> has_renal_impairment ex \<and> \<not> has_hepatic_impairment ex \<and>
            num_allergies ex = 0 \<and> num_chronic_conditions ex = 0
            \<longrightarrow> risk_score ex = 30) \<and>
         (n_drugs < 5 \<longrightarrow>
            risk_score_rule 1 0 0 0 30 (30 \<ge> (65::int)) False False (n_drugs \<ge> (5::int)) 0 0
              = 30) \<and>
         risk_score_rule 10 0 0 0 30 (30 \<ge> (65::int)) False False (2 \<ge> (5::int)) 0 0 = 100 \<and>
         (risk_score_raw nc ns ng nm age g renal hepatic poly nal nch > 100 \<longrightarrow>
            risk_score_rule nc ns ng nm age g renal hepatic poly nal nch = 100) \<and>
         risk_score_rule nc ns ng nm age g renal hepatic poly nal nch \<le> 100"
proof -
  have a: "\<forall>ex \<in> set (generate_synthetic_training_data R clock n).
            risk_score ex = spec_risk_score_of ex"
  proof
    fix ex assume "ex \<in> set (generate_synthetic_training_data R clock n)"
    then obtain i st where "ex = fst (gen_example R clock i st)" using generate_set by blast
    then show "risk_score ex = spec_risk_score_of ex" using generated_risk_score[OF assms] by simp
  qed
  have a': "\<forall>ex \<in> set (generate_synthetic_training_data R clock n).
            CONTRAINDICATED (severity_summary ex) = 1 \<and> SERIOUS (severity_summary ex) = 0 \<and>
            SIGNIFICANT (severity_summary ex) = 0 \<and> MINOR (severity_summary ex) = 0 \<and>
            num_drugs ex < 5 \<and> patient_age ex = 30 \<and>
            \<not> has_renal_impairment ex \<and> \<not> has_hepatic_impairment ex \<and>
            num_allergies ex = 0 \<and> num_chronic_conditions ex = 0
            \<longrightarrow> risk_score ex = 30"
  proof (intro ballI impI)
    fix ex assume m: "ex \<in> set (generate_synthetic_training_data R clock n)"
      and c: "CONTRAINDICATED (severity_summary ex) = 1 \<and> SERIOUS (severity_summary ex) = 0 \<and>
            SIGNIFICANT (severity_summary ex) = 0 \<and> MINOR (severity_summary ex) = 0 \<and>
            num_drugs ex < 5 \<and> patient_age ex = 30 \<and>
            \<not> has_renal_impairment ex \<and> \<not> has_hepatic_impairment ex \<and>
            num_allergies ex = 0 \<and> num_chronic_conditions ex = 0"
    have "risk_score ex = spec_risk_score_of ex" using a m by blast
    also have "\<dots> = 30" using c by (simp add: spec_risk_score_of_def spec_risk_score_def)
    finally show "risk_score ex = 30" .
  qed
  have b: "n_drugs < 5 \<longrightarrow>
      risk_score_rule 1 0 0 0 30 (30 \<ge> (65::int)) False False (n_drugs \<ge> (5::int)) 0 0 = 30"
    by (simp add: risk_score_rule_def risk_score_raw_def)
  have c: "risk_score_rule 10 0 0 0 30 (30 \<ge> (65::int)) False False (2 \<ge> (5::int)) 0 0 = 100"
    by (simp add: risk_score_rule_def risk_score_raw_def)
  have d: "risk_score_raw nc ns ng nm age g renal hepatic poly nal nch > 100 \<longrightarrow>
            risk_score_rule nc ns ng nm age g renal hepatic poly nal nch = 100"
    by (simp add: risk_score_rule_def)
  have e: "risk_score_rule nc ns ng nm age g renal hepatic poly nal nch \<le> 100"
    by (simp add: risk_score_rule_def)
  show ?thesis using a a' b c d e by blast
qed

theorem rule_based_risk_score_witness:
  "rng_ok (scripted_rng 2) \<and>
   hd (generate_synthetic_training_data (scripted_rng 2) morning 1)
     \<in> set (generate_synthetic_training_data (scripted_rng 2) morning 1) \<and>
   CONTRAINDICATED (severity_summary (hd (generate_synthetic_training_data (scripted_rng 2) morning 1))) = 1 \<and>
   SERIOUS (severity_summary (hd (generate_synthetic_training_data (scripted_rng 2) morning 1))) = 0 \<and>
   SIGNIFICANT (severity_summary (hd (generate_synthetic_training_data (scripted_rng 2) morning 1))) = 0 \<and>
   MINOR (severity_summary (hd (generate_synthetic_training_data (scripted_rng 2) morning 1))) = 0 \<and>
   num_drugs (hd (generate_synthetic_training_data (scripted_rng 2) morning 1)) = 3 \<and>
   patient_age (hd (generate_synthetic_training_data (scripted_rng 2) morning 1)) = 30 \<and>
   \<not> has_renal_impairment (hd (generate_synthetic_training_data (scripted_rng 2) morning 1)) \<and>
   \<not> has_hepatic_impairment (hd (generate_synthetic_training_data (scripted_rng 2) morning 1)) \<and>
   num_allergies (hd (generate_synthetic_training_data (scripted_rng 2) morning 1)) = 0 \<and>
   num_chronic_conditions (hd (generate_synthetic_training_data (scripted_rng 2) morning 1)) = 0 \<and>
   num_drugs (hd (generate_synthetic_training_data (scripted_rng 2) morning 1)) < 5 \<and>
   risk_score (hd (generate_synthetic_training_data (scripted_rng 2) morning 1)) = 30 \<and>
   risk_score (hd (generate_synthetic_training_data (scripted_rng 2) morning 1))
     = spec_risk_score_of (hd (generate_synthetic_training_data (scripted_rng 2) morning 1)) \<and>
   (3::int) < 5 \<and>
   risk_score_rule 1 0 0 0 30 (30 \<ge> (65::int)) False False (3 \<ge> (5::int)) 0 0 = 30 \<and>
   risk_score_raw 10 0 0 0 30 False False False False 0 0 > 100 \<and>
   risk_score_rule 10 0 0 0 30 False False False False 0 0 = 100"
proof -
  have f: "CONTRAINDICATED (severity_summary (hd (generate_synthetic_training_data (scripted_rng 2) morning 1))) = 1 \<and>
   SERIOUS (severity_summary (hd (generate_synthetic_training_data (scripted_rng 2) morning 1))) = 0 \<and>
   SIGNIFICANT (severity_summary (hd (generate_synthetic_training_data (scripted_rng 2) morning 1))) = 0 \<and>
   MINOR (severity_summary (hd (generate_synthetic_training_data (scripted_rng 2) morning 1))) = 0 \<and>
   num_drugs (hd (generate_synthetic_training_data (scripted_rng 2) morning 1)) = 3 \<and>
   patient_age (hd (generate_synthetic_training_data (scripted_rng 2) morning 1)) = 30 \<and>
   \<not> has_renal_impairment (hd (generate_synthetic_training_data (scripted_rng 2) morning 1)) \<and>
   \<not> has_hepatic_impairment (hd (generate_synthetic_training_data (scripted_rng 2) morning 1)) \<and>
   num_allergies (hd (generate_synthetic_training_data (scripted_rng 2) morning 1)) = 0 \<and>
   num_chronic_conditions (hd (generate_synthetic_training_data (scripted_rng 2) morning 1)) = 0"
    by code_simp
  have r: "risk_score_raw 10 0 0 0 30 False False False False 0 0 > 100"
    by (simp add: risk_score_raw_def)
  note T = rule_based_risk_score[OF rng_ok_scripted[of 2],
        of morning 1 3 10 0 0 0 30 False False False False 0 0]
  have m: "hd (generate_synthetic_training_data (scripted_rng 2) morning 1)
      \<in> set (generate_synthetic_training_data (scripted_rng 2) morning 1)"
    using generate_hd[of 1 "scripted_rng 2" morning] by simp
  have lt: "num_drugs (hd (generate_synthetic_training_data (scripted_rng 2) morning 1)) < 5"
    using f by simp
  have s1: "risk_score (hd (generate_synthetic_training_data (scripted_rng 2) morning 1))
      = spec_risk_score_of (hd (generate_synthetic_training_data (scripted_rng 2) morning 1))"
    using T m by blast
  have s2: "risk_score (hd (generate_synthetic_training_data (scripted_rng 2) morning 1)) = 30"
    using T m f lt by blast
  have s3: "risk_score_rule 1 0 0 0 30 (30 \<ge> (65::int)) False False (3 \<ge> (5::int)) 0 0 = 30"
    using T by simp
  have s4: "risk_score_rule 10 0 0 0 30 False False False False 0 0 = 100"
    using T r by blast
  show ?thesis using rng_ok_scripted[of 2] m f lt s1 s2 s3 s4 r by simp
qed

text \<open>
  C3. For every \<open>n \<ge> 0\<close> the generator returns exactly \<open>n\<close> records, and in each of them
  the four interaction counts are not negative, \<open>num_significant\<close> is at most
  \<open>num_drugs\<close> and \<open>num_minor\<close> at most twice \<open>num_drugs\<close>; the random source is one that
  keeps the promises of its documentation.
\<close>

theorem generate_count_and_count_bounds:
  assumes "rng_ok R" and "0 \<le> n"
  shows "int (length (generate_synthetic_training_data R clock n)) = n \<and>
         (\<forall>ex \<in> set (generate_synthetic_training_data R clock n).
            0 \<le> CONTRAINDICATED (severity_summary ex) \<and>
            0 \<le> SERIOUS (severity_summary ex) \<and>
            0 \<le> SIGNIFICANT (severity_summary ex) \<and>
            0 \<le> MINOR (severity_summary ex) \<and>
            SIGNIFICANT (severity_summary ex) \<le> num_drugs ex \<and>
            MINOR (severity_summary ex) \<le> 2 * num_drugs ex)"
proof
  show "int (length (generate_synthetic_training_data R clock n)) = n"
    using assms(2) by (simp add: generate_synthetic_training_data_def gen_loop_length)
next
  show "\<forall>ex \<in> set (generate_synthetic_training_data R clock n).
            0 \<le> CONTRAINDICATED (severity_summary ex) \<and>
            0 \<le> SERIOUS (severity_summary ex) \<and>
            0 \<le> SIGNIFICANT (severity_summary ex) \<and>
            0 \<le> MINOR (severity_summary ex) \<and>
            SIGNIFICANT (severity_summary ex) \<le> num_drugs ex \<and>
            MINOR (severity_summary ex) \<le> 2 * num_drugs ex"
  proof
    fix ex assume "ex \<in> set (generate_synthetic_training_data R clock n)"
    then obtain i st where ex: "ex = fst (gen_example R clock i st)"
      using generate_set by blast
    have ok: "vars_ok (fst (draw_features R st))" using draw_features_ok[OF assms(1)] .
    show "0 \<le> CONTRAINDICATED (severity_summary ex) \<and>
            0 \<le> SERIOUS (severity_summary ex) \<and>
            0 \<le> SIGNIFICANT (severity_summary ex) \<and>
            0 \<le> MINOR (severity_summary ex) \<and>
            SIGNIFICANT (severity_summary ex) \<le> num_drugs ex \<and>
            MINOR (severity_summary ex) \<le> 2 * num_drugs ex"
      using ok unfolding ex vars_ok_def num_drugs_def
      by (simp add: gen_example_fields length_drug_entries)
  qed
qed

theorem generate_count_and_count_bounds_witness:
  "rng_ok counter_rng \<and> (0::int) \<le> 2 \<and>
   int (length (generate_synthetic_training_data counter_rng morning 2)) = 2 \<and>
   hd (generate_synthetic_training_data counter_rng morning 2) \<in> set (generate_synthetic_training_data counter_rng morning 2) \<and>
   SIGNIFICANT (severity_summary (hd (generate_synthetic_training_data counter_rng morning 2)))
     \<le> num_drugs (hd (generate_synthetic_training_data counter_rng morning 2)) \<and>
   MINOR (severity_summary (hd (generate_synthetic_training_data counter_rng morning 2)))
     \<le> 2 * num_drugs (hd (generate_synthetic_training_data counter_rng morning 2))"
  using generate_count_and_count_bounds[OF rng_ok_counter, of 2 morning] rng_ok_counter
    generate_hd[of 2 counter_rng morning]
  by simp

text \<open>
  C4. The label probability of every generated case is the one the specification
  describes: \<open>risk_score / 100\<close>; times \<open>2.5\<close> capped at \<open>0.95\<close> when there is a
  contraindicated interaction, otherwise times \<open>1.8\<close> capped at \<open>0.85\<close> when there is a
  serious one; then times \<open>1.3\<close> capped at \<open>0.90\<close> from age 65; then times \<open>1.2\<close> capped
  at \<open>0.90\<close> with renal or hepatic impairment; plus the one Gaussian draw of the
  iteration; clamped to \<open>[0, 1]\<close>. It holds for the record of every iteration, from
  whatever state of the random source the iteration starts.
\<close>

theorem label_probability_formula:
  "adverse_event_probability (fst (gen_example R clock i st)) =
     spec_label_probability (risk_score (fst (gen_example R clock i st)))
       (CONTRAINDICATED (severity_summary (fst (gen_example R clock i st))))
       (SERIOUS (severity_summary (fst (gen_example R clock i st))))
       (patient_age (fst (gen_example R clock i st)))
       (has_renal_impairment (fst (gen_example R clock i st)))
       (has_hepatic_impairment (fst (gen_example R clock i st)))
       (noise_draw R st)"
proof -
  define v where "v = fst (draw_features R st)"
  have g: "v_is_geriatric v = (v_patient_age v \<ge> 65)"
    unfolding v_def by (rule draw_features_geriatric)
  have p: "adverse_event_probability (fst (gen_example R clock i st)) =
      final_probability
        (base_probability (risk_score (fst (gen_example R clock i st)))
           (v_num_contraindicated v) (v_num_serious v) (v_is_geriatric v)
           (v_has_renal_impairment v) (v_has_hepatic_impairment v))
        (noise_draw R st)"
    unfolding v_def noise_draw_def
    by (simp add: gen_example_def Let_def split: prod.splits)
  have q: "final_probability (base_probability sc nc ns (age \<ge> 65) r h) z =
      spec_label_probability sc nc ns age r h z" for sc nc ns age r h z
    unfolding final_probability_def base_probability_def spec_label_probability_def min_cap Let_def
    by (simp add: max_def min_def)
  show ?thesis unfolding p g q by (simp add: gen_example_fields v_def)
qed


text \<open>
  C9. Every generated record has a patient age from 18 to 94, inside the declared domain
  from 0 to 120; the random source is one that keeps the promises of its documentation,
  in particular that \<open>uniform(lo, hi)\<close> stays below \<open>hi\<close>.
\<close>

theorem generated_age_range:
  assumes "rng_ok R" and "ex \<in> set (generate_synthetic_training_data R clock n)"
  shows "18 \<le> patient_age ex \<and> patient_age ex \<le> 94 \<and> 0 \<le> patient_age ex \<and> patient_age ex \<le> 120"
proof -
  obtain i st where ex: "ex = fst (gen_example R clock i st)"
    using generate_set[OF assms(2)] by blast
  have ok: "vars_ok (fst (draw_features R st))" using draw_features_ok[OF assms(1)] .
  show ?thesis using ok unfolding ex vars_ok_def by (simp add: gen_example_fields)
qed

theorem generated_age_range_witness:
  "rng_ok counter_rng \<and>
   hd (generate_synthetic_training_data counter_rng morning 2) \<in> set (generate_synthetic_training_data counter_rng morning 2) \<and>
   18 \<le> patient_age (hd (generate_synthetic_training_data counter_rng morning 2)) \<and>
   patient_age (hd (generate_synthetic_training_data counter_rng morning 2)) \<le> 94"
  using generated_age_range[OF rng_ok_counter, of "hd (generate_synthetic_training_data counter_rng morning 2)" morning 2]
    rng_ok_counter generate_hd[of 2 counter_rng morning]
  by simp

text \<open>
  C10. Every generated record has at most 2 contraindicated and at most 3 serious
  interactions and at most 3 allergies, so its list of allergy alerts has at most 3
  entries; the random source is one that keeps the promises of its documentation.
\<close>

theorem generated_upper_bounds:
  assumes "rng_ok R" and "ex \<in> set (generate_synthetic_training_data R clock n)"
  shows "CONTRAINDICATED (severity_summary ex) \<le> 2 \<and> SERIOUS (severity_summary ex) \<le> 3 \<and>
         num_allergies ex \<le> 3 \<and> length (allergy_alerts ex) \<le> 3"
proof -
  obtain i st where ex: "ex = fst (gen_example R clock i st)"
    using generate_set[OF assms(2)] by blast
  have ok: "vars_ok (fst (draw_features R st))" using draw_features_ok[OF assms(1)] .
  show ?thesis using ok unfolding ex vars_ok_def num_allergies_def
    by (auto simp: gen_example_fields length_allergy_names)
qed

theorem generated_upper_bounds_witness:
  "rng_ok counter_rng \<and>
   hd (generate_synthetic_training_data counter_rng morning 2) \<in> set (generate_synthetic_training_data counter_rng morning 2) \<and>
   CONTRAINDICATED (severity_summary (hd (generate_synthetic_training_data counter_rng morning 2))) \<le> 2 \<and>
   SERIOUS (severity_summary (hd (generate_synthetic_training_data counter_rng morning 2))) \<le> 3 \<and>
   length (allergy_alerts (hd (generate_synthetic_training_data counter_rng morning 2))) \<le> 3"
  using generated_upper_bounds[OF rng_ok_counter, of "hd (generate_synthetic_training_data counter_rng morning 2)" morning 2]
    rng_ok_counter generate_hd[of 2 counter_rng morning]
  by simp

text \<open>
  C2. The claim: two calls of the generator with the same \<open>n\<close> produce identical
  output. Both calls seed the generators with 42, but line 195 stamps every record with
  \<^verbatim>\<open>datetime.now()\<close>, so two calls at different times differ in \<open>generated_at\<close>.
  The counterexample runs the generator once in the morning and once in the evening.
\<close>

theorem generator_clock_counterexample:
  "generate_synthetic_training_data counter_rng morning 1 \<noteq>
   generate_synthetic_training_data counter_rng evening 1"
  by code_simp

text \<open>
  C2, as amended: two calls with the same \<open>n\<close> produce records that agree in every field
  but \<open>generated_at\<close>, whatever the clock reads; and they produce identical output when the
  clock reads the same in every iteration.
\<close>

theorem generator_deterministic_up_to_clock:
  "map without_timestamp (generate_synthetic_training_data R clock1 n) =
     map without_timestamp (generate_synthetic_training_data R clock2 n) \<and>
   ((\<forall>i < nat n. clock1 i = clock2 i) \<longrightarrow>
      generate_synthetic_training_data R clock1 n = generate_synthetic_training_data R clock2 n)"
proof (intro conjI impI)
  show "map without_timestamp (generate_synthetic_training_data R clock1 n) =
     map without_timestamp (generate_synthetic_training_data R clock2 n)"
    unfolding generate_synthetic_training_data_def
    by (rule gen_loop_without_timestamp) simp
next
  assume a: "\<forall>i < nat n. clock1 i = clock2 i"
  have "\<forall>i \<in> set [0..<nat n]. clock1 i = clock2 i" using a by simp
  then show "generate_synthetic_training_data R clock1 n = generate_synthetic_training_data R clock2 n"
    unfolding generate_synthetic_training_data_def
    by (rule gen_loop_same_clock)
qed


theorem generator_deterministic_up_to_clock_witness:
  "morning 0 = (\<lambda>i. if i < 2 then morning i else evening i) 0 \<and>
   morning 1 = (\<lambda>i. if i < 2 then morning i else evening i) 1 \<and>
   generate_synthetic_training_data counter_rng morning 2 =
     generate_synthetic_training_data counter_rng (\<lambda>i. if i < 2 then morning i else evening i) 2 \<and>
   map without_timestamp (generate_synthetic_training_data counter_rng morning 2) =
     map without_timestamp
       (generate_synthetic_training_data counter_rng (\<lambda>i. if i < 2 then morning i else evening i) 2)"
proof -
  have h: "\<forall>i < nat 2. morning i = (\<lambda>i. if i < 2 then morning i else evening i) i"
    by simp
  show ?thesis
    using generator_deterministic_up_to_clock
      [of counter_rng morning 2 "\<lambda>i. if i < 2 then morning i else evening i"] h
    by simp
qed




text \<open>
  C7. The claim: the table written beside the document has the columns of the feature
  vector in its fixed order, \<^verbatim>\<open>polypharmacy\<close> before \<^verbatim>\<open>num_allergies\<close>, followed by
  the label and then the rounded risk score. Lines 286 to 289 write \<^verbatim>\<open>num_allergies\<close>
  before \<^verbatim>\<open>polypharmacy\<close> and \<^verbatim>\<open>risk_score\<close> before the label. The counterexample
  saves the output of the generator.
\<close>

theorem csv_columns_counterexample:
  "columns (csv_document (save_training_data
      (generate_synthetic_training_data counter_rng morning 1) ''training_data.json''))
   \<noteq> spec_columns"
proof -
  have "generate_synthetic_training_data counter_rng morning 1 \<noteq> []"
    using generate_length[of counter_rng morning 1] by auto
  then have "columns (csv_document (save_training_data
      (generate_synthetic_training_data counter_rng morning 1) ''training_data.json''))
      = written_columns"
    by (simp add: save_training_data_def data_frame_columns)
  then show ?thesis by (simp add: written_columns_def spec_columns_def)
qed

text \<open>
  C7, as amended: for every list of case records, \<open>save_training_data\<close> writes the list
  as the document and, beside it, a table with exactly one row per case whose columns
  are \<^verbatim>\<open>num_drugs\<close>, \<^verbatim>\<open>num_contraindicated\<close>, \<^verbatim>\<open>num_serious\<close>, \<^verbatim>\<open>num_significant\<close>,
  \<^verbatim>\<open>num_minor\<close>, \<^verbatim>\<open>patient_age\<close>, \<^verbatim>\<open>is_geriatric\<close>, \<^verbatim>\<open>has_renal_impairment\<close>,
  \<^verbatim>\<open>has_hepatic_impairment\<close>, \<^verbatim>\<open>num_chronic_conditions\<close>, \<^verbatim>\<open>num_allergies\<close>,
  \<^verbatim>\<open>polypharmacy\<close>, \<^verbatim>\<open>risk_score\<close> rounded to one decimal and \<^verbatim>\<open>adverse_event\<close>, the
  label, in this order; \<open>num_drugs\<close> is the length of \<^verbatim>\<open>drugs_checked\<close>, \<open>num_allergies\<close>
  that of \<^verbatim>\<open>allergy_alerts\<close>, \<open>is_geriatric\<close> is \<open>patient_age \<ge> 65\<close> and \<open>polypharmacy\<close> is
  \<open>num_drugs \<ge> 5\<close>. An empty list gives a table without columns.
\<close>

theorem csv_projection:
  "json_document (save_training_data training_data filename) = training_data \<and>
   length (table_rows (csv_document (save_training_data training_data filename)))
     = length training_data \<and>
   table_rows (csv_document (save_training_data training_data filename))
     = map spec_cells training_data \<and>
   columns (csv_document (save_training_data training_data filename))
     = (if training_data = [] then [] else written_columns)"
  by (simp add: save_training_data_def data_frame_columns data_frame_rows)

text \<open>
  C8. The claim: \<open>train_model\<close> catches every exception the training call of the
  predictor raises, prints the troubleshooting checklist and returns normally. The
  handler of line 145 is \<^verbatim>\<open>except Exception\<close>: an exception that is no instance of
  \<^verbatim>\<open>Exception\<close> passes through it, and lines 217 and 218 expect a
  \<^verbatim>\<open>KeyboardInterrupt\<close> to reach the script. The counterexample is a training call
  interrupted from the keyboard.
\<close>

theorem keyboard_interrupt_counterexample:
  "fit (sample_env interrupted_fit [complete_example]) [complete_example]
     = Inl (PyExc KeyboardInterrupt_instance ''KeyboardInterrupt'' []) \<and>
   fit_invoked (train_model (sample_env interrupted_fit [complete_example])) \<and>
   outcome (train_model (sample_env interrupted_fit [complete_example]))
     = Raised (PyExc KeyboardInterrupt_instance ''KeyboardInterrupt'' []) \<and>
   Troubleshooting \<notin> set (log (train_model (sample_env interrupted_fit [complete_example])))"
  by code_simp

text \<open>
  C8, as amended: every exception the training call of the predictor raises that is an
  instance of \<^verbatim>\<open>Exception\<close> is caught by \<open>train_model\<close>: the driver prints the error
  and the troubleshooting checklist and returns normally to its caller, and the script
  as a whole ends normally.
\<close>

theorem fit_exception_is_caught:
  assumes "load E = Loaded td" and "fit_invoked (train_model E)" and "fit E td = Inl e"
    and "exc_base e = Exception_instance"
  shows "outcome (train_model E) = Returned \<and>
         (\<exists>before. log (train_model E) =
            before @ [ErrDuringTraining (exc_class e) (exc_msg e), Troubleshooting,
                      FullErrorDetails]) \<and>
         outcome (main E) = Returned"
proof -
  note r = train_and_report_fit_raises[OF assms(3,4)]
  have a: "outcome (train_model E) = Returned"
    using train_model_invoked[OF assms(1,2)] r by simp
  have b: "\<exists>before. log (train_model E) =
            before @ [ErrDuringTraining (exc_class e) (exc_msg e), Troubleshooting,
                      FullErrorDetails]"
    using train_model_invoked[OF assms(1,2)] r by simp
  show ?thesis using a b main_of_returned[OF a] by simp
qed

theorem fit_exception_is_caught_witness:
  "load (sample_env failing_fit [complete_example]) = Loaded [complete_example] \<and>
   fit_invoked (train_model (sample_env failing_fit [complete_example])) \<and>
   fit (sample_env failing_fit [complete_example]) [complete_example]
     = Inl (PyExc Exception_instance ''ValueError''
              ''The least populated class in y has only 1 member'') \<and>
   exc_base (PyExc Exception_instance ''ValueError''
              ''The least populated class in y has only 1 member'') = Exception_instance \<and>
   outcome (train_model (sample_env failing_fit [complete_example])) = Returned \<and>
   outcome (main (sample_env failing_fit [complete_example])) = Returned"
proof -
  have a: "load (sample_env failing_fit [complete_example]) = Loaded [complete_example]"
    by (simp add: sample_env_def)
  have b: "fit_invoked (train_model (sample_env failing_fit [complete_example]))" by code_simp
  have c: "fit (sample_env failing_fit [complete_example]) [complete_example]
     = Inl (PyExc Exception_instance ''ValueError''
              ''The least populated class in y has only 1 member'')"
    by (simp add: sample_env_def failing_fit_def)
  have d: "exc_base (PyExc Exception_instance ''ValueError''
              ''The least populated class in y has only 1 member'') = Exception_instance"
    by simp
  show ?thesis using fit_exception_is_caught[OF a b c d] a b c d by simp
qed

end
